theory Spec2Isabelle
  imports Complex_Main
begin

section \<open>JavaScript values used by the application\<close>

text \<open>
  A JavaScript string is modelled as \<open>string\<close>, the bytes of its UTF-8 encoding; a
  string is truthy exactly when it is not empty.  A value that may be \<open>null\<close> or
  \<open>undefined\<close> is an \<open>option\<close>.  A call that may throw returns \<open>js_error + 'a\<close>.  A
  thrown value is either \<open>null\<close> or \<open>undefined\<close> (\<open>Nullish\<close>), or any other value,
  of which only the \<open>message\<close> property matters (\<open>Error\<close>, with \<open>None\<close> when the value
  has no such property; a message that is present is a string).
\<close>

datatype js_error = Error "string option" | Nullish

definition truthy :: "string \<Rightarrow> bool" where
  "truthy s = (s \<noteq> [])"

definition truthy_opt :: "string option \<Rightarrow> bool" where
  "truthy_opt v = (case v of None \<Rightarrow> False | Some s \<Rightarrow> truthy s)"

text \<open>How a template literal prints a value that may be \<open>undefined\<close>.\<close>

definition render_opt :: "string option \<Rightarrow> string" where
  "render_opt v = (case v of None \<Rightarrow> ''undefined'' | Some s \<Rightarrow> s)"

text \<open>
  The errors the platform itself throws: reading a property of \<open>null\<close> or
  \<open>undefined\<close> and handing a non-finite number to a setter throw a \<open>TypeError\<close>, a
  media volume outside \<open>[0, 1]\<close> an \<open>IndexSizeError\<close>.  Their message texts differ
  between engines; the model names them by their kind.
\<close>

definition typeError :: js_error where
  "typeError = Error (Some ''TypeError'')"


text \<open>\<open>err.message || dflt\<close> inside a \<open>catch (err)\<close>: the property access itself throws
  when the caught value is \<open>null\<close> or \<open>undefined\<close>.\<close>

fun message_or :: "js_error \<Rightarrow> string \<Rightarrow> js_error + string" where
  "message_or (Error m) dflt = Inr (if truthy_opt m then render_opt m else dflt)"
| "message_or Nullish dflt = Inl typeError"

text \<open>\<open>s.startsWith(p)\<close>\<close>

definition startsWith :: "string \<Rightarrow> string \<Rightarrow> bool" where
  "startsWith s p = (take (length p) s = p)"

text \<open>Decimal rendering of a non-negative integer, as a template literal prints it.\<close>

definition digit_char :: "nat \<Rightarrow> char" where
  "digit_char d = ''0123456789'' ! d"

fun show_nat :: "nat \<Rightarrow> string" where
  "show_nat n = (if n < 10 then [digit_char n] else show_nat (n div 10) @ [digit_char (n mod 10)])"

declare show_nat.simps [simp del]

definition show_int :: "int \<Rightarrow> string" where
  "show_int i = (if i < 0 then CHR ''-'' # show_nat (nat (- i)) else show_nat (nat i))"

subsection \<open>Numbers\<close>

text \<open>
  A JavaScript number is a binary64 value: \<open>NaN\<close>, an infinity, or a finite value,
  modelled by the real it denotes (the sign of a zero is not represented).  An
  arithmetic operation returns the exact result rounded to the nearest binary64 value,
  ties to the even significand, and an infinity on overflow.
\<close>

datatype jsnum = NaN | NegInf | Fin real | PosInf

definition pow2 :: "int \<Rightarrow> real" where
  "pow2 z = (if 0 \<le> z then 2 ^ nat z else 1 / 2 ^ nat (- z))"

text \<open>The number of binary digits of a natural number.\<close>

fun bitLength :: "nat \<Rightarrow> nat" where
  "bitLength n = (if n = 0 then 0 else Suc (bitLength (n div 2)))"

declare bitLength.simps [simp del]

text \<open>For \<open>a > 0\<close>, the exponent \<open>e\<close> with \<open>2^e \<le> a < 2^(e+1)\<close>.\<close>

definition exponentOf :: "real \<Rightarrow> int" where
  "exponentOf a =
     (if 1 \<le> a then int (bitLength (nat \<lfloor>a\<rfloor>)) - 1
      else - int (bitLength (nat (\<lceil>1 / a\<rceil> - 1))))"

definition roundHalfEven :: "real \<Rightarrow> int" where
  "roundHalfEven q =
     (let n = \<lfloor>q\<rfloor>; f = q - of_int n
      in if f < 1 / 2 then n else if 1 / 2 < f then n + 1 else if even n then n else n + 1)"

text \<open>
  Rounding to a binary format with \<open>prec\<close> significant bits and least normal exponent
  \<open>emin\<close>, before the overflow check: below \<open>2^emin\<close> the spacing stays that of the
  subnormal values.
\<close>

definition roundBinary :: "nat \<Rightarrow> int \<Rightarrow> real \<Rightarrow> real" where
  "roundBinary prec emin x =
     (if x = 0 then 0
      else (let a = \<bar>x\<bar>;
                e = max (exponentOf a) emin;
                ulp = pow2 (e - (int prec - 1));
                r = of_int (roundHalfEven (a / ulp)) * ulp
            in if 0 < x then r else - r))"

definition round64 :: "real \<Rightarrow> jsnum" where
  "round64 x =
     (let r = roundBinary 53 (- 1022) x
      in if pow2 1024 \<le> r then PosInf else if r \<le> - pow2 1024 then NegInf else Fin r)"

text \<open>\<open>a + b\<close>\<close>

fun js_add :: "jsnum \<Rightarrow> jsnum \<Rightarrow> jsnum" where
  "js_add NaN b = NaN"
| "js_add a NaN = NaN"
| "js_add (Fin x) (Fin y) = round64 (x + y)"
| "js_add PosInf NegInf = NaN"
| "js_add NegInf PosInf = NaN"
| "js_add PosInf b = PosInf"
| "js_add a PosInf = PosInf"
| "js_add NegInf b = NegInf"
| "js_add a NegInf = NegInf"

definition js_negative :: "jsnum \<Rightarrow> bool" where
  "js_negative a = (case a of NegInf \<Rightarrow> True | Fin x \<Rightarrow> x < 0 | _ \<Rightarrow> False)"

text \<open>\<open>a * b\<close>\<close>

definition js_mul :: "jsnum \<Rightarrow> jsnum \<Rightarrow> jsnum" where
  "js_mul a b =
     (if a = NaN \<or> b = NaN then NaN
      else (case (a, b) of
              (Fin x, Fin y) \<Rightarrow> round64 (x * y)
            | _ \<Rightarrow> (if a = Fin 0 \<or> b = Fin 0 then NaN
                     else if js_negative a = js_negative b then PosInf else NegInf)))"

text \<open>\<open>a <= b\<close>, which is also \<open>b >= a\<close>: false when either side is \<open>NaN\<close>.\<close>

fun js_le :: "jsnum \<Rightarrow> jsnum \<Rightarrow> bool" where
  "js_le NaN b = False"
| "js_le a NaN = False"
| "js_le (Fin x) (Fin y) = (x \<le> y)"
| "js_le NegInf b = True"
| "js_le a PosInf = True"
| "js_le PosInf b = False"
| "js_le a NegInf = False"






section \<open>types.ts\<close>

datatype ViewMode = PLAYER | VEO_STUDIO | IMAGE_STUDIO | LIVE

datatype MediaType = Video | Audio | Image

record MediaItem =
  mi_id :: string
  mi_name :: string
  mi_url :: string
  mi_type :: MediaType
  mi_mimeType :: "string option"
  mi_duration :: "real option"
  mi_isStream :: "bool option"

section \<open>App.tsx: the playlist\<close>

text \<open>
  A \<open>File\<close> of a \<open>FileList\<close> carries its name and its MIME type.  The two platform
  calls of the upload handler are oracles indexed by the number of earlier calls:
  \<open>random_id k\<close> is what the \<open>k\<close>-th call of \<open>generateId\<close> returns and
  \<open>objectURL k\<close> what the \<open>k\<close>-th call of \<open>URL.createObjectURL\<close> returns.  The
  counters \<open>idCalls\<close> and \<open>urlCalls\<close> record how many calls were made.
\<close>

record File =
  file_name :: string
  file_type :: string

record Platform =
  random_id :: "nat \<Rightarrow> string"
  objectURL :: "nat \<Rightarrow> string"

record App =
  currentView :: ViewMode
  playlist :: "MediaItem list"
  currentMediaId :: "string option"
  idCalls :: nat
  urlCalls :: nat

definition initialApp :: App where
  "initialApp = \<lparr> currentView = PLAYER, playlist = [], currentMediaId = None,
                   idCalls = 0, urlCalls = 0 \<rparr>"

definition typeOfMime :: "string \<Rightarrow> MediaType" where
  "typeOfMime t = (if startsWith t ''video'' then Video
                   else if startsWith t ''audio'' then Audio else Image)"

definition itemOfFile :: "Platform \<Rightarrow> nat \<Rightarrow> nat \<Rightarrow> File \<Rightarrow> MediaItem" where
  "itemOfFile pf i u file =
     \<lparr> mi_id = random_id pf i, mi_name = file_name file, mi_url = objectURL pf u,
       mi_type = typeOfMime (file_type file), mi_mimeType = Some (file_type file),
       mi_duration = None, mi_isStream = None \<rparr>"

text \<open>\<open>Array.from(files).map(file => ...)\<close>: one item per file, left to right.\<close>

fun mapFiles :: "Platform \<Rightarrow> nat \<Rightarrow> nat \<Rightarrow> File list \<Rightarrow> MediaItem list" where
  "mapFiles pf i u [] = []"
| "mapFiles pf i u (file # files) = itemOfFile pf i u file # mapFiles pf (Suc i) (Suc u) files"

text \<open>\<open>!currentMediaId\<close>: no selection, or the empty id.\<close>

definition handleUpload :: "Platform \<Rightarrow> File list \<Rightarrow> App \<Rightarrow> App" where
  "handleUpload pf files app =
     (let newItems = mapFiles pf (idCalls app) (urlCalls app) files;
          app1 = app \<lparr> playlist := playlist app @ newItems,
                       idCalls := idCalls app + length files,
                       urlCalls := urlCalls app + length files \<rparr>
      in if \<not> truthy_opt (currentMediaId app) \<and> length newItems > 0
         then app1 \<lparr> currentMediaId := Some (mi_id (hd newItems)), currentView := PLAYER \<rparr>
         else app1)"

definition handleAddStream :: "Platform \<Rightarrow> string \<Rightarrow> App \<Rightarrow> App" where
  "handleAddStream pf u app =
     (let newItem = \<lparr> mi_id = random_id pf (idCalls app),
                       mi_name = ''Stream '' @ show_nat (length (playlist app) + 1),
                       mi_url = u, mi_type = Video, mi_mimeType = None,
                       mi_duration = None, mi_isStream = Some True \<rparr>
      in app \<lparr> playlist := newItem # playlist app,
               currentMediaId := Some (mi_id newItem),
               currentView := PLAYER,
               idCalls := Suc (idCalls app) \<rparr>)"

definition handleMediaSelect :: "MediaItem \<Rightarrow> App \<Rightarrow> App" where
  "handleMediaSelect item app = app \<lparr> currentMediaId := Some (mi_id item) \<rparr>"

text \<open>The \<open>type\<close> argument of \<open>addToPlaylist\<close> is \<open>'video' | 'image'\<close>.\<close>

datatype GeneratedType = GenVideo | GenImage

definition mediaTypeOf :: "GeneratedType \<Rightarrow> MediaType" where
  "mediaTypeOf t = (case t of GenVideo \<Rightarrow> Video | GenImage \<Rightarrow> Image)"

definition addToPlaylist :: "Platform \<Rightarrow> string \<Rightarrow> string \<Rightarrow> GeneratedType \<Rightarrow> App \<Rightarrow> App" where
  "addToPlaylist pf u nm t app =
     (let newItem = \<lparr> mi_id = random_id pf (idCalls app), mi_name = nm, mi_url = u,
                       mi_type = mediaTypeOf t, mi_mimeType = None,
                       mi_duration = None, mi_isStream = None \<rparr>
      in app \<lparr> playlist := newItem # playlist app, idCalls := Suc (idCalls app) \<rparr>)"

text \<open>\<open>playlist.find(p => p.id === currentMediaId) || null\<close>\<close>

definition getCurrentMedia :: "App \<Rightarrow> MediaItem option" where
  "getCurrentMedia app = find (\<lambda>p. Some (mi_id p) = currentMediaId app) (playlist app)"

section \<open>Player.tsx\<close>

text \<open>
  The media element behind \<open>videoRef\<close>: its current time, which is always a finite
  number, its duration (\<open>None\<close> stands for \<open>NaN\<close>, the value before metadata is
  loaded), its native volume, which the element keeps within \<open>[0, 1]\<close>, and the picture
  it shows.  The gain node behind \<open>gainNodeRef\<close> is represented by the binary32 value
  its gain holds.  Both refs are \<open>None\<close> while nothing is mounted.  The loop endpoints
  are times of the element.  The stored volume, the bounds of a cue and the subtitle
  offset are JavaScript numbers of any kind.
\<close>

record VideoElement =
  currentTime :: real
  el_duration :: "real option"
  el_volume :: real
  videoWidth :: nat
  videoHeight :: nat
  el_frame :: nat

record LoopState =
  loop_a :: "real option"
  loop_b :: "real option"
  loop_active :: bool

record Cue =
  cue_start :: jsnum
  cue_end :: jsnum
  cue_text :: string

record Player =
  media :: "MediaItem option"
  videoRef :: "VideoElement option"
  gainNodeRef :: "real option"
  progress :: real
  duration :: real
  loop :: LoopState
  volume :: jsnum
  subtitleText :: string
  subtitles :: "Cue list"
  subtitleOffset :: jsnum
  osdMessage :: "string option"

text \<open>The initial values of the \<open>useState\<close> hooks, before anything is mounted.\<close>

definition initialPlayer :: "MediaItem option \<Rightarrow> Player" where
  "initialPlayer m =
     \<lparr> media = m, videoRef = None, gainNodeRef = None, progress = 0, duration = 0,
       loop = \<lparr> loop_a = None, loop_b = None, loop_active = False \<rparr>,
       volume = Fin 1, subtitleText = [], subtitles = [], subtitleOffset = Fin 0,
       osdMessage = None \<rparr>"

text \<open>The predicate of \<open>subtitles.find\<close> in \<open>handleTimeUpdate\<close>, for the time \<open>ct\<close> read
  at the start of the step.\<close>

definition cueActive :: "real \<Rightarrow> jsnum \<Rightarrow> Cue \<Rightarrow> bool" where
  "cueActive ct off s =
     (js_le (js_add (cue_start s) off) (js_mul (Fin ct) (Fin 1000))
      \<and> js_le (js_mul (Fin ct) (Fin 1000)) (js_add (cue_end s) off))"

text \<open>The loop check: the element after it.\<close>

definition loopCheck :: "LoopState \<Rightarrow> real \<Rightarrow> VideoElement \<Rightarrow> VideoElement" where
  "loopCheck l ct v =
     (if loop_active l \<and> loop_b l \<noteq> None \<and> loop_a l \<noteq> None
      then (case loop_b l of
              None \<Rightarrow> v
            | Some b \<Rightarrow> (if ct \<ge> b
                         then (case loop_a l of None \<Rightarrow> v | Some a \<Rightarrow> v \<lparr> currentTime := a \<rparr>)
                         else v))
      else v)"

definition handleTimeUpdate :: "Player \<Rightarrow> Player" where
  "handleTimeUpdate p =
     (case videoRef p of
        None \<Rightarrow> p
      | Some v \<Rightarrow>
          (let ct = currentTime v;
               currentSub = find (cueActive ct (subtitleOffset p)) (subtitles p)
           in p \<lparr> progress := ct,
                  duration := (case el_duration v of None \<Rightarrow> 0 | Some d \<Rightarrow> d),
                  videoRef := Some (loopCheck (loop p) ct v),
                  subtitleText := (case currentSub of None \<Rightarrow> [] | Some s \<Rightarrow> cue_text s) \<rparr>))"


definition osdTimeout :: "Player \<Rightarrow> Player" where
  "osdTimeout p = p \<lparr> osdMessage := None \<rparr>"








section \<open>services/geminiService.ts\<close>

subsection \<open>Helpers for strings and optional chaining\<close>

text \<open>\<open>s.split(c)\<close> for a one-character separator; the result is never empty.\<close>

fun split_js :: "char \<Rightarrow> string \<Rightarrow> string list" where
  "split_js c [] = [[]]"
| "split_js c (x # xs) =
     (if x = c then [] # split_js c xs
      else (case split_js c xs of [] \<Rightarrow> [[x]] | w # ws \<Rightarrow> (x # w) # ws))"

text \<open>\<open>xs[i]\<close>, \<open>undefined\<close> out of range.\<close>

definition nth_opt :: "'a list \<Rightarrow> nat \<Rightarrow> 'a option" where
  "nth_opt xs i = (if i < length xs then Some (xs ! i) else None)"

subsection \<open>Requests, responses and the outside world\<close>

datatype ImageAspect = IA_1_1 | IA_3_4 | IA_4_3 | IA_16_9
datatype ImageSize = Size1K | Size2K | Size4K
datatype VeoAspect = VA_16_9 | VA_9_16
datatype Resolution = R720p | R1080p

record InlineData =
  inline_data :: "string option"

record Part =
  part_inlineData :: "InlineData option"

record Content =
  content_parts :: "Part list option"

record Candidate =
  cand_content :: "Content option"

record GenerateContentResponse =
  candidates :: "Candidate list option"
  response_text :: "string option"

record VideoFile =
  video_uri :: "string option"

record GeneratedVideo =
  gv_video :: "VideoFile option"

record VideosResponse =
  generatedVideos :: "GeneratedVideo list option"

record Operation =
  op_done :: "bool option"
  op_response :: "VideosResponse option"

record ImageParam =
  imageBytes :: "string option"
  image_mimeType :: "string option"

record VideoParams =
  vp_model :: string
  vp_prompt :: "string option"
  vp_numberOfVideos :: nat
  vp_resolution :: Resolution
  vp_aspectRatio :: VeoAspect
  vp_image :: "ImageParam option"

datatype req_part = TextPart string | InlineDataPart string "string option"

datatype gc_config = SpeechConfig string | ImageGenConfig ImageAspect ImageSize | NoConfig

datatype chat_content = PlainText string | Parts "req_part list"

datatype api_request =
    GenerateContent string "req_part list" gc_config
  | GenerateVideos VideoParams
  | GetVideosOperation Operation
  | Fetch string
  | SendMessage chat_content
  | HasSelectedApiKey
  | OpenSelectKey

text \<open>What a run leaves behind outside the component state, in order.  \<open>Rejected e\<close>
  stands for a handler whose promise is rejected with \<open>e\<close>, which nothing catches.\<close>

datatype effect =
    Call api_request
  | Sleep nat
  | ConsoleError string "js_error option"
  | ConsoleLog string
  | Alert string
  | StartPlayback "nat list"
  | Rejected js_error

text \<open>\<open>window.aistudio\<close>: the method \<open>hasSelectedApiKey\<close> may be absent.\<close>

record AiStudio =
  hasSelectedApiKey :: "(js_error + bool) option"
  openSelectKey :: "js_error + unit"

text \<open>
  The outside world answers every request.  Each answer is either a value or a thrown
  error.  \<open>getVideosOperation k\<close> answers the \<open>k\<close>-th status query of a generation run.
\<close>

record Env =
  api_key :: "string option"
  aistudio :: "AiStudio option"
  generateContent :: "string \<Rightarrow> req_part list \<Rightarrow> gc_config \<Rightarrow> js_error + GenerateContentResponse"
  generateVideos :: "VideoParams \<Rightarrow> js_error + Operation"
  getVideosOperation :: "nat \<Rightarrow> Operation \<Rightarrow> js_error + Operation"
  fetch :: "string \<Rightarrow> js_error + nat"
  blob :: "nat \<Rightarrow> js_error + nat"
  createObjectURL :: "nat \<Rightarrow> string"
  atob :: "string \<Rightarrow> js_error + nat list"
  decodeAudioData :: "nat list \<Rightarrow> js_error + nat list"

text \<open>\<open>catch (error) { console.error(label, error); throw error; }\<close>\<close>

definition catch_rethrow :: "string \<Rightarrow> effect list \<times> (js_error + 'a) \<Rightarrow> effect list \<times> (js_error + 'a)" where
  "catch_rethrow label r =
     (case r of
        (effs, Inl e) \<Rightarrow> (effs @ [ConsoleError label (Some e)], Inl e)
      | (effs, Inr v) \<Rightarrow> (effs, Inr v))"

text \<open>\<open>response.candidates?.[0]?.content?.parts\<close>\<close>

definition first_parts :: "GenerateContentResponse \<Rightarrow> Part list option" where
  "first_parts r =
     Option.bind (candidates r) (\<lambda>cs.
     Option.bind (nth_opt cs 0) (\<lambda>c.
     Option.bind (cand_content c) content_parts))"

subsection \<open>Chat\<close>

type_synonym Chat = "chat_content \<Rightarrow> js_error + GenerateContentResponse"

definition sendMessageToChat :: "Chat \<Rightarrow> string \<Rightarrow> string list \<Rightarrow> effect list \<times> (js_error + string)" where
  "sendMessageToChat chat message contextImages =
     (let content =
            (if length contextImages > 0
             then Parts (TextPart message #
                         map (\<lambda>img. InlineDataPart ''image/jpeg'' (nth_opt (split_js CHR '','' img) 1))
                             contextImages)
             else PlainText message)
      in case chat content of
           Inl e \<Rightarrow> ([Call (SendMessage content)], Inl e)
         | Inr response \<Rightarrow>
             ([Call (SendMessage content)],
              Inr (if truthy_opt (response_text response)
                   then render_opt (response_text response)
                   else ''I couldn't generate a response.'')))"

subsection \<open>Text to speech\<close>

text \<open>The result is the byte content of the returned buffer, or \<open>None\<close> for \<open>null\<close>.
  The function never throws: its \<open>catch\<close> logs and returns \<open>null\<close>.\<close>

definition generateSpeech :: "Env \<Rightarrow> string \<Rightarrow> effect list \<times> nat list option" where
  "generateSpeech env txt =
     (let req = Call (GenerateContent ''gemini-2.5-flash-preview-tts'' [TextPart txt]
                        (SpeechConfig ''Kore''))
      in case generateContent env ''gemini-2.5-flash-preview-tts'' [TextPart txt]
                (SpeechConfig ''Kore'') of
           Inl e \<Rightarrow> ([req, ConsoleError ''TTS failed'' (Some e)], None)
         | Inr response \<Rightarrow>
             (let base64Audio =
                    Option.bind (first_parts response) (\<lambda>ps.
                    Option.bind (nth_opt ps 0) (\<lambda>part.
                    Option.bind (part_inlineData part) inline_data))
              in if truthy_opt base64Audio
                 then (case atob env (render_opt base64Audio) of
                         Inl e \<Rightarrow> ([req, ConsoleError ''TTS failed'' (Some e)], None)
                       | Inr binaryString \<Rightarrow> ([req], Some (map (\<lambda>c. c mod 256) binaryString)))
                 else ([req], None)))"

subsection \<open>Image generation and editing\<close>

text \<open>The loop over the parts: the first part with inline data decides.\<close>

fun firstInlineImage :: "Part list \<Rightarrow> string option" where
  "firstInlineImage [] = None"
| "firstInlineImage (part # ps) =
     (case part_inlineData part of
        Some d \<Rightarrow> Some (''data:image/png;base64,'' @ render_opt (inline_data d))
      | None \<Rightarrow> firstInlineImage ps)"

definition partsOrEmpty :: "GenerateContentResponse \<Rightarrow> Part list" where
  "partsOrEmpty r = (case first_parts r of None \<Rightarrow> [] | Some ps \<Rightarrow> ps)"

definition generateImage ::
  "Env \<Rightarrow> string \<Rightarrow> ImageAspect \<Rightarrow> ImageSize \<Rightarrow> effect list \<times> (js_error + string option)" where
  "generateImage env prompt aspectRatio imageSize =
     catch_rethrow ''Image generation failed:''
       (case generateContent env ''gemini-3-pro-image-preview'' [TextPart prompt]
               (ImageGenConfig aspectRatio imageSize) of
          Inl e \<Rightarrow>
            ([Call (GenerateContent ''gemini-3-pro-image-preview'' [TextPart prompt]
                      (ImageGenConfig aspectRatio imageSize))], Inl e)
        | Inr response \<Rightarrow>
            ([Call (GenerateContent ''gemini-3-pro-image-preview'' [TextPart prompt]
                      (ImageGenConfig aspectRatio imageSize))],
             Inr (firstInlineImage (partsOrEmpty response))))"

definition editImage :: "Env \<Rightarrow> string \<Rightarrow> string \<Rightarrow> effect list \<times> (js_error + string option)" where
  "editImage env base64Image prompt =
     (let ps = [InlineDataPart ''image/png'' (nth_opt (split_js CHR '','' base64Image) 1),
                TextPart prompt]
      in catch_rethrow ''Image editing failed:''
           (case generateContent env ''gemini-2.5-flash-image'' ps NoConfig of
              Inl e \<Rightarrow> ([Call (GenerateContent ''gemini-2.5-flash-image'' ps NoConfig)], Inl e)
            | Inr response \<Rightarrow>
                ([Call (GenerateContent ''gemini-2.5-flash-image'' ps NoConfig)],
                 Inr (firstInlineImage (partsOrEmpty response)))))"

subsection \<open>Veo video generation\<close>

text \<open>\<open>!operation.done\<close>: the loop goes on unless the flag is set to \<open>true\<close>.\<close>

definition isDone :: "Operation \<Rightarrow> bool" where
  "isDone operation = (op_done operation = Some True)"

text \<open>
  The poll loop.  Each round sleeps 5000 ms, queries the status and logs it.  The loop
  may run forever, so it takes fuel: \<open>None\<close> means the fuel ran out before the
  operation was done.  \<open>k\<close> counts the status queries made so far.
\<close>

fun pollUntilDone ::
  "Env \<Rightarrow> nat \<Rightarrow> nat \<Rightarrow> Operation \<Rightarrow> (effect list \<times> (js_error + Operation)) option" where
  "pollUntilDone env 0 k operation =
     (if isDone operation then Some ([], Inr operation) else None)"
| "pollUntilDone env (Suc fuel) k operation =
     (if isDone operation then Some ([], Inr operation)
      else (case getVideosOperation env k operation of
              Inl e \<Rightarrow> Some ([Sleep 5000, Call (GetVideosOperation operation)], Inl e)
            | Inr operation' \<Rightarrow>
                (case pollUntilDone env fuel (Suc k) operation' of
                   None \<Rightarrow> None
                 | Some (effs, r) \<Rightarrow>
                     Some ([Sleep 5000, Call (GetVideosOperation operation),
                            ConsoleLog ''Veo operation status:''] @ effs, r))))"

text \<open>\<open>operation.response?.generatedVideos?.[0]?.video?.uri\<close>\<close>

definition videoUriOf :: "Operation \<Rightarrow> string option" where
  "videoUriOf operation =
     Option.bind (op_response operation) (\<lambda>r.
     Option.bind (generatedVideos r) (\<lambda>vs.
     Option.bind (nth_opt vs 0) (\<lambda>gv.
     Option.bind (gv_video gv) video_uri)))"

text \<open>The part after the loop: fetch the video behind the URI, or return \<open>null\<close>.\<close>

definition retrieveVideo :: "Env \<Rightarrow> Operation \<Rightarrow> effect list \<times> (js_error + string option)" where
  "retrieveVideo env operation =
     (let videoUri = videoUriOf operation
      in if truthy_opt videoUri
         then (let fetchUrl = render_opt videoUri @ ''&key='' @ render_opt (api_key env)
               in case fetch env fetchUrl of
                    Inl e \<Rightarrow> ([Call (Fetch fetchUrl)], Inl e)
                  | Inr res \<Rightarrow>
                      (case blob env res of
                         Inl e \<Rightarrow> ([Call (Fetch fetchUrl)], Inl e)
                       | Inr b \<Rightarrow> ([Call (Fetch fetchUrl)], Inr (Some (createObjectURL env b)))))
         else ([], Inr None))"

definition veoParams :: "string \<Rightarrow> VeoAspect \<Rightarrow> Resolution \<Rightarrow> string option \<Rightarrow> VideoParams" where
  "veoParams prompt aspectRatio resolution inputImage =
     \<lparr> vp_model = ''veo-3.1-fast-generate-preview'',
       vp_prompt = (if truthy prompt then Some prompt else None),
       vp_numberOfVideos = 1,
       vp_resolution = resolution,
       vp_aspectRatio = aspectRatio,
       vp_image =
         (if truthy_opt inputImage
          then Some \<lparr> imageBytes = nth_opt (split_js CHR '','' (render_opt inputImage)) 1,
                      image_mimeType =
                        Option.bind (nth_opt (split_js CHR '';'' (render_opt inputImage)) 0)
                          (\<lambda>h. nth_opt (split_js CHR '':'' h) 1) \<rparr>
          else None) \<rparr>"

definition generateVeoVideo ::
  "Env \<Rightarrow> nat \<Rightarrow> string \<Rightarrow> VeoAspect \<Rightarrow> Resolution \<Rightarrow> string option
     \<Rightarrow> (effect list \<times> (js_error + string option)) option" where
  "generateVeoVideo env fuel prompt aspectRatio resolution inputImage =
     (let params = veoParams prompt aspectRatio resolution inputImage
      in map_option (catch_rethrow ''Veo generation failed:'')
           (case generateVideos env params of
              Inl e \<Rightarrow> Some ([Call (GenerateVideos params)], Inl e)
            | Inr operation \<Rightarrow>
                (case pollUntilDone env fuel 0 operation of
                   None \<Rightarrow> None
                 | Some (effs, Inl e) \<Rightarrow> Some (Call (GenerateVideos params) # effs, Inl e)
                 | Some (effs, Inr operation') \<Rightarrow>
                     (case retrieveVideo env operation' of
                        (effs', r) \<Rightarrow> Some (Call (GenerateVideos params) # effs @ effs', r)))))"

subsection \<open>What a run of the poll loop sees\<close>

text \<open>
  One round of the loop leaves three effects.  \<open>statusAfter env k operation n\<close> is the
  status the run holds after \<open>n\<close> further queries (or the error a query threw), and
  \<open>pendingStatuses env k operation n\<close> lists the statuses the first \<open>n\<close> rounds
  started from.  \<open>isFetch\<close> recognises a fetch among the effects.
\<close>

definition pollRound :: "Operation \<Rightarrow> effect list" where
  "pollRound operation =
     [Sleep 5000, Call (GetVideosOperation operation), ConsoleLog ''Veo operation status:'']"

fun statusAfter :: "Env \<Rightarrow> nat \<Rightarrow> Operation \<Rightarrow> nat \<Rightarrow> js_error + Operation" where
  "statusAfter env k operation 0 = Inr operation"
| "statusAfter env k operation (Suc n) =
     (case getVideosOperation env k operation of
        Inl e \<Rightarrow> Inl e
      | Inr operation' \<Rightarrow> statusAfter env (Suc k) operation' n)"

fun pendingStatuses :: "Env \<Rightarrow> nat \<Rightarrow> Operation \<Rightarrow> nat \<Rightarrow> Operation list" where
  "pendingStatuses env k operation 0 = []"
| "pendingStatuses env k operation (Suc n) =
     operation # (case getVideosOperation env k operation of
                    Inl e \<Rightarrow> []
                  | Inr operation' \<Rightarrow> pendingStatuses env (Suc k) operation' n)"

definition isFetch :: "effect \<Rightarrow> bool" where
  "isFetch eff = (case eff of Call (Fetch u) \<Rightarrow> True | _ \<Rightarrow> False)"

section \<open>components/ImageStudio.tsx\<close>

datatype Tab = TabGenerate | TabEdit

record ImageConfig =
  ic_prompt :: string
  ic_aspectRatio :: ImageAspect
  ic_size :: ImageSize

record ImageStudio =
  is_prompt :: string
  is_isProcessing :: bool
  is_activeTab :: Tab
  is_selectedImageForEdit :: "string option"
  is_error :: "string option"
  is_config :: ImageConfig

definition initialImageStudio :: ImageStudio where
  "initialImageStudio =
     \<lparr> is_prompt = [], is_isProcessing = False, is_activeTab = TabGenerate,
       is_selectedImageForEdit = None, is_error = None,
       is_config = \<lparr> ic_prompt = [], ic_aspectRatio = IA_1_1, ic_size = Size1K \<rparr> \<rparr>"

text \<open>
  The key check both studios make: when \<open>window.aistudio\<close> and its method
  \<open>hasSelectedApiKey\<close> exist, ask whether a key is selected and open the selection
  dialogue when none is.
\<close>

definition checkApiKey :: "Env \<Rightarrow> effect list \<times> (js_error + unit)" where
  "checkApiKey env =
     (case aistudio env of
        None \<Rightarrow> ([], Inr ())
      | Some studio \<Rightarrow>
          (case hasSelectedApiKey studio of
             None \<Rightarrow> ([], Inr ())
           | Some (Inl e) \<Rightarrow> ([Call HasSelectedApiKey], Inl e)
           | Some (Inr hasKey) \<Rightarrow>
               (if hasKey then ([Call HasSelectedApiKey], Inr ())
                else (case openSelectKey studio of
                        Inl e \<Rightarrow> ([Call HasSelectedApiKey, Call OpenSelectKey], Inl e)
                      | Inr u \<Rightarrow> ([Call HasSelectedApiKey, Call OpenSelectKey], Inr ())))))"

text \<open>
  The body of the \<open>try\<close> block of \<open>handleAction\<close>.  The callback \<open>onImageGenerated\<close>
  acts on the state \<open>w\<close> of the parent component.
\<close>

definition imageActionBody ::
  "Env \<Rightarrow> (string \<Rightarrow> string \<Rightarrow> 'w \<Rightarrow> 'w) \<Rightarrow> ImageStudio \<Rightarrow> 'w
     \<Rightarrow> effect list \<times> (js_error + ImageStudio \<times> 'w)" where
  "imageActionBody env onImageGenerated s w =
     (case (if is_activeTab s = TabGenerate then checkApiKey env else ([], Inr ())) of
        (effs1, Inl e) \<Rightarrow> (effs1, Inl e)
      | (effs1, Inr u) \<Rightarrow>
          (case (if is_activeTab s = TabGenerate
                 then generateImage env (is_prompt s) (ic_aspectRatio (is_config s))
                        (ic_size (is_config s))
                 else if \<not> truthy_opt (is_selectedImageForEdit s)
                 then ([], Inl (Error (Some ''Please select an image to edit first.'')))
                 else editImage env (render_opt (is_selectedImageForEdit s)) (is_prompt s)) of
             (effs2, Inl e) \<Rightarrow> (effs1 @ effs2, Inl e)
           | (effs2, Inr resultUrl) \<Rightarrow>
               (if truthy_opt resultUrl
                then (effs1 @ effs2,
                      Inr ((if is_activeTab s = TabGenerate
                            then s \<lparr> is_selectedImageForEdit := resultUrl \<rparr> else s),
                           onImageGenerated (render_opt resultUrl)
                             ((if is_activeTab s = TabGenerate then ''Gen: '' else ''Edit: '')
                              @ is_prompt s) w))
                else (effs1 @ effs2, Inl (Error (Some ''Failed to process image.''))))))"

definition handleAction ::
  "Env \<Rightarrow> (string \<Rightarrow> string \<Rightarrow> 'w \<Rightarrow> 'w) \<Rightarrow> ImageStudio \<Rightarrow> 'w
     \<Rightarrow> ImageStudio \<times> 'w \<times> effect list" where
  "handleAction env onImageGenerated s w =
     (if \<not> truthy (is_prompt s) then (s, w, [])
      else (let s1 = s \<lparr> is_isProcessing := True, is_error := None \<rparr>
            in case imageActionBody env onImageGenerated s1 w of
                 (effs, Inl err) \<Rightarrow>
                   (case message_or err ''Operation failed.'' of
                      Inr msg \<Rightarrow>
                        (s1 \<lparr> is_error := Some msg, is_isProcessing := False \<rparr>, w, effs)
                    | Inl thrown \<Rightarrow>
                        (s1 \<lparr> is_isProcessing := False \<rparr>, w, effs @ [Rejected thrown]))
               | (effs, Inr (s2, w2)) \<Rightarrow> (s2 \<lparr> is_isProcessing := False \<rparr>, w2, effs)))"

section \<open>components/VeoStudio.tsx\<close>

record VeoConfig =
  vc_prompt :: string
  vc_aspectRatio :: VeoAspect
  vc_resolution :: Resolution

record VeoStudio =
  vs_prompt :: string
  vs_isGenerating :: bool
  vs_error :: "string option"
  vs_inputImage :: "string option"
  vs_config :: VeoConfig

definition initialVeoStudio :: VeoStudio where
  "initialVeoStudio =
     \<lparr> vs_prompt = [], vs_isGenerating = False, vs_error = None, vs_inputImage = None,
       vs_config = \<lparr> vc_prompt = [], vc_aspectRatio = VA_16_9, vc_resolution = R720p \<rparr> \<rparr>"

text \<open>The body of the \<open>try\<close> block of \<open>handleGenerate\<close>; \<open>None\<close> when the poll loop
  inside \<open>generateVeoVideo\<close> runs out of fuel.\<close>

definition veoGenerateBody ::
  "Env \<Rightarrow> nat \<Rightarrow> (string \<Rightarrow> string \<Rightarrow> 'w \<Rightarrow> 'w) \<Rightarrow> VeoStudio \<Rightarrow> 'w
     \<Rightarrow> (effect list \<times> (js_error + 'w)) option" where
  "veoGenerateBody env fuel onVideoGenerated s w =
     (case checkApiKey env of
        (effs1, Inl e) \<Rightarrow> Some (effs1, Inl e)
      | (effs1, Inr u) \<Rightarrow>
          (case generateVeoVideo env fuel (vs_prompt s) (vc_aspectRatio (vs_config s))
                  (vc_resolution (vs_config s))
                  (if truthy_opt (vs_inputImage s) then vs_inputImage s else None) of
             None \<Rightarrow> None
           | Some (effs2, Inl e) \<Rightarrow> Some (effs1 @ effs2, Inl e)
           | Some (effs2, Inr videoUrl) \<Rightarrow>
               (if truthy_opt videoUrl
                then Some (effs1 @ effs2,
                           Inr (onVideoGenerated (render_opt videoUrl)
                                  (if truthy (vs_prompt s) then vs_prompt s
                                   else ''Image to Video'') w))
                else Some (effs1 @ effs2, Inl (Error (Some ''Failed to retrieve video URL.''))))))"

definition handleGenerate ::
  "Env \<Rightarrow> nat \<Rightarrow> (string \<Rightarrow> string \<Rightarrow> 'w \<Rightarrow> 'w) \<Rightarrow> VeoStudio \<Rightarrow> 'w
     \<Rightarrow> (VeoStudio \<times> 'w \<times> effect list) option" where
  "handleGenerate env fuel onVideoGenerated s w =
     (if \<not> truthy (vs_prompt s) \<and> \<not> truthy_opt (vs_inputImage s) then Some (s, w, [])
      else (let s1 = s \<lparr> vs_isGenerating := True, vs_error := None \<rparr>
            in case veoGenerateBody env fuel onVideoGenerated s1 w of
                 None \<Rightarrow> None
               | Some (effs, Inl err) \<Rightarrow>
                   (case message_or err ''An unexpected error occurred.'' of
                      Inr msg \<Rightarrow>
                        Some (s1 \<lparr> vs_error := Some msg, vs_isGenerating := False \<rparr>, w, effs)
                    | Inl thrown \<Rightarrow>
                        Some (s1 \<lparr> vs_isGenerating := False \<rparr>, w, effs @ [Rejected thrown]))
               | Some (effs, Inr w2) \<Rightarrow> Some (s1 \<lparr> vs_isGenerating := False \<rparr>, w2, effs)))"

section \<open>components/GeminiAssistant.tsx\<close>

datatype Role = User | Model

record ChatMessage =
  cm_id :: string
  cm_role :: Role
  cm_text :: string
  cm_timestamp :: int
  cm_images :: "string list option"

record Assistant =
  messages :: "ChatMessage list"
  input :: string
  isThinking :: bool
  chatSession :: "Chat option"
  contextImage :: "string option"
  playingMessageId :: "string option"

text \<open>
  \<open>String.prototype.trim\<close> strips the white space and line terminators of the
  language from both ends.  These are the code points below, each given by its UTF-8
  encoding: U+0009 to U+000D, U+0020, U+00A0, U+1680, U+2000 to U+200A, U+2028,
  U+2029, U+202F, U+205F, U+3000 and U+FEFF.
\<close>

definition whiteSpaceEncodings :: "string list" where
  "whiteSpaceEncodings =
     [[CHR 0x09], [CHR 0x0A], [CHR 0x0B], [CHR 0x0C], [CHR 0x0D], [CHR 0x20],
      [CHR 0xC2, CHR 0xA0],
      [CHR 0xE1, CHR 0x9A, CHR 0x80],
      [CHR 0xE2, CHR 0x80, CHR 0x80], [CHR 0xE2, CHR 0x80, CHR 0x81],
      [CHR 0xE2, CHR 0x80, CHR 0x82], [CHR 0xE2, CHR 0x80, CHR 0x83],
      [CHR 0xE2, CHR 0x80, CHR 0x84], [CHR 0xE2, CHR 0x80, CHR 0x85],
      [CHR 0xE2, CHR 0x80, CHR 0x86], [CHR 0xE2, CHR 0x80, CHR 0x87],
      [CHR 0xE2, CHR 0x80, CHR 0x88], [CHR 0xE2, CHR 0x80, CHR 0x89],
      [CHR 0xE2, CHR 0x80, CHR 0x8A],
      [CHR 0xE2, CHR 0x80, CHR 0xA8], [CHR 0xE2, CHR 0x80, CHR 0xA9],
      [CHR 0xE2, CHR 0x80, CHR 0xAF],
      [CHR 0xE2, CHR 0x81, CHR 0x9F],
      [CHR 0xE3, CHR 0x80, CHR 0x80],
      [CHR 0xEF, CHR 0xBB, CHR 0xBF]]"

text \<open>The length of the white-space code point a string starts with or ends in; 0 when
  there is none.\<close>

definition leadingWhiteSpace :: "string \<Rightarrow> nat" where
  "leadingWhiteSpace s =
     (case find (\<lambda>w. startsWith s w) whiteSpaceEncodings of None \<Rightarrow> 0 | Some w \<Rightarrow> length w)"

definition trailingWhiteSpace :: "string \<Rightarrow> nat" where
  "trailingWhiteSpace s =
     (case find (\<lambda>w. startsWith (rev s) (rev w)) whiteSpaceEncodings of
        None \<Rightarrow> 0
      | Some w \<Rightarrow> length w)"

function trimStart :: "string \<Rightarrow> string" where
  "trimStart s =
     (if leadingWhiteSpace s = 0 \<or> s = [] then s else trimStart (drop (leadingWhiteSpace s) s))"
  by pat_completeness auto
termination
  by (relation "measure length") auto

function trimEnd :: "string \<Rightarrow> string" where
  "trimEnd s =
     (if trailingWhiteSpace s = 0 \<or> s = [] then s
      else trimEnd (take (length s - trailingWhiteSpace s) s))"
  by pat_completeness auto
termination
  by (relation "measure length") auto

declare trimStart.simps [simp del]
declare trimEnd.simps [simp del]

definition trim :: "string \<Rightarrow> string" where
  "trim s = trimEnd (trimStart s)"

text \<open>\<open>now k\<close> is what the \<open>k\<close>-th call of \<open>Date.now()\<close> in the handler returns.\<close>

definition handleSend :: "(nat \<Rightarrow> int) \<Rightarrow> Assistant \<Rightarrow> Assistant \<times> effect list" where
  "handleSend now s =
     (if (\<not> truthy (trim (input s)) \<and> \<not> truthy_opt (contextImage s)) \<or> chatSession s = None
      then (s, [])
      else (case chatSession s of
              None \<Rightarrow> (s, [])
            | Some chat \<Rightarrow>
                (let userMsg = \<lparr> cm_id = show_int (now 0), cm_role = User, cm_text = input s,
                                  cm_timestamp = now 1,
                                  cm_images = (if truthy_opt (contextImage s)
                                               then Some [render_opt (contextImage s)]
                                               else None) \<rparr>;
                     currentContext = (if truthy_opt (contextImage s)
                                       then [render_opt (contextImage s)] else []);
                     s1 = s \<lparr> messages := messages s @ [userMsg], input := [],
                              contextImage := None, isThinking := True \<rparr>
                 in case sendMessageToChat chat
                           (if truthy (cm_text userMsg) then cm_text userMsg
                            else ''Analyze this image'') currentContext of
                      (effs, Inr responseText) \<Rightarrow>
                        (s1 \<lparr> messages := messages s1 @
                                 [\<lparr> cm_id = show_int (now 2 + 1), cm_role = Model,
                                     cm_text = responseText, cm_timestamp = now 3,
                                     cm_images = None \<rparr>],
                              isThinking := False \<rparr>, effs)
                    | (effs, Inl e) \<Rightarrow>
                        (s1 \<lparr> messages := messages s1 @
                                 [\<lparr> cm_id = show_int (now 2), cm_role = Model,
                                     cm_text = ''Sorry, I encountered an error processing your request.'',
                                     cm_timestamp = now 3, cm_images = None \<rparr>],
                              isThinking := False \<rparr>,
                         effs @ [ConsoleError [] (Some e)]))))"

text \<open>\<open>frame\<close> is what \<open>onCaptureContext()\<close> returned.\<close>

definition handleCapture :: "string option \<Rightarrow> Assistant \<Rightarrow> Assistant \<times> effect list" where
  "handleCapture frame s =
     (if truthy_opt frame then (s \<lparr> contextImage := frame \<rparr>, [])
      else (s, [Alert ''No active video found to capture.'']))"

text \<open>
  \<open>handleSpeak\<close> up to the start of the playback; the end of the playback is a later
  event, \<open>playbackEnded\<close>.
\<close>

definition handleSpeak :: "Env \<Rightarrow> ChatMessage \<Rightarrow> Assistant \<Rightarrow> Assistant \<times> effect list" where
  "handleSpeak env msg s =
     (if playingMessageId s = Some (cm_id msg) then (s, [])
      else (let s1 = s \<lparr> playingMessageId := Some (cm_id msg) \<rparr>
            in case generateSpeech env (cm_text msg) of
                 (effs, None) \<Rightarrow> (s1 \<lparr> playingMessageId := None \<rparr>, effs)
               | (effs, Some audioData) \<Rightarrow>
                   (case decodeAudioData env audioData of
                      Inl e \<Rightarrow>
                        (s1 \<lparr> playingMessageId := None \<rparr>,
                         effs @ [ConsoleError ''Speech play failed'' (Some e)])
                    | Inr audioBuffer \<Rightarrow> (s1, effs @ [StartPlayback audioBuffer]))))"

definition playbackEnded :: "Assistant \<Rightarrow> Assistant" where
  "playbackEnded s = s \<lparr> playingMessageId := None \<rparr>"

section \<open>App.tsx: the callbacks handed to the studios\<close>

definition onVideoGenerated :: "Platform \<Rightarrow> string \<Rightarrow> string \<Rightarrow> App \<Rightarrow> App" where
  "onVideoGenerated pf u prompt = addToPlaylist pf u (''Veo: '' @ prompt) GenVideo"

definition onImageGenerated :: "Platform \<Rightarrow> string \<Rightarrow> string \<Rightarrow> App \<Rightarrow> App" where
  "onImageGenerated pf u nm = addToPlaylist pf u nm GenImage"

section \<open>Example inputs\<close>

definition examplePlatform :: Platform where
  "examplePlatform = \<lparr> random_id = (\<lambda>k. ''id'' @ show_nat k),
                        objectURL = (\<lambda>k. ''blob:'' @ show_nat k) \<rparr>"

definition exampleVideo :: VideoElement where
  "exampleVideo = \<lparr> currentTime = 12, el_duration = Some 60, el_volume = 1,
                     videoWidth = 640, videoHeight = 360, el_frame = 7 \<rparr>"

definition exampleCues :: "Cue list" where
  "exampleCues = [\<lparr> cue_start = Fin 0, cue_end = Fin 5000, cue_text = ''one'' \<rparr>,
                  \<lparr> cue_start = Fin 11000, cue_end = Fin 13000, cue_text = ''two'' \<rparr>,
                  \<lparr> cue_start = Fin 12000, cue_end = Fin 14000, cue_text = ''three'' \<rparr>]"

definition examplePlayer :: Player where
  "examplePlayer = (initialPlayer None)
     \<lparr> videoRef := Some exampleVideo, gainNodeRef := Some 1,
       loop := \<lparr> loop_a = Some 3, loop_b = Some 10, loop_active = True \<rparr>,
       subtitles := exampleCues, subtitleOffset := Fin 500 \<rparr>"

text \<open>A player whose element stands at the binary64 value nearest to 4.35 s, with one
  cue that starts at 4350 ms.\<close>

definition boundaryTime :: real where
  "boundaryTime = 2448832297382707 / 2 ^ 49"

definition boundaryPlayer :: Player where
  "boundaryPlayer = (initialPlayer None)
     \<lparr> videoRef := Some (exampleVideo \<lparr> currentTime := boundaryTime \<rparr>),
       subtitles := [\<lparr> cue_start = Fin 4350, cue_end = Fin 5000, cue_text = ''edge'' \<rparr>] \<rparr>"



text \<open>
  A world in which the video service reports completion at the third status query,
  every download succeeds and every \<open>generateContent\<close> request throws.
\<close>

definition pendingOperation :: Operation where
  "pendingOperation = \<lparr> op_done = None, op_response = None \<rparr>"

definition doneOperation :: Operation where
  "doneOperation =
     \<lparr> op_done = Some True,
       op_response = Some \<lparr> generatedVideos =
         Some [\<lparr> gv_video = Some \<lparr> video_uri = Some ''https://v.example/1?alt=media'' \<rparr> \<rparr>] \<rparr> \<rparr>"

definition exampleEnv :: Env where
  "exampleEnv =
     \<lparr> api_key = Some ''KEY'', aistudio = None,
       generateContent = (\<lambda>m ps c. Inl (Error (Some ''service unavailable''))),
       generateVideos = (\<lambda>params. Inr pendingOperation),
       getVideosOperation = (\<lambda>k operation. if k < 2 then Inr (pendingOperation \<lparr> op_done := Some False \<rparr>)
                                             else Inr doneOperation),
       fetch = (\<lambda>u. Inr 1), blob = (\<lambda>res. Inr 2), createObjectURL = (\<lambda>b. ''blob:video''),
       atob = (\<lambda>s. Inr []), decodeAudioData = (\<lambda>bytes. Inr bytes) \<rparr>"

text \<open>Studio and assistant states used in the examples.\<close>

definition exampleVeoWithImage :: VeoStudio where
  "exampleVeoWithImage = initialVeoStudio \<lparr> vs_inputImage := Some ''data:image/png;base64,AAAA'' \<rparr>"

definition exampleMessage :: ChatMessage where
  "exampleMessage = \<lparr> cm_id = ''welcome'', cm_role = Model, cm_text = ''Hello!'',
                       cm_timestamp = 0, cm_images = None \<rparr>"

definition exampleAssistant :: Assistant where
  "exampleAssistant =
     \<lparr> messages = [exampleMessage], input = ''What is this?'', isThinking = False,
       chatSession = Some (\<lambda>c. Inl (Error (Some ''service unavailable''))),
       contextImage = None, playingMessageId = None \<rparr>"

definition exampleImageStudio :: ImageStudio where
  "exampleImageStudio = initialImageStudio \<lparr> is_prompt := ''a red fox'' \<rparr>"

definition exampleEditStudio :: ImageStudio where
  "exampleEditStudio = initialImageStudio
     \<lparr> is_prompt := ''make it blue'', is_activeTab := TabEdit,
       is_selectedImageForEdit := Some ''data:image/png;base64,AAAA'' \<rparr>"

definition exampleVeoStudio :: VeoStudio where
  "exampleVeoStudio = initialVeoStudio \<lparr> vs_prompt := ''a cat'' \<rparr>"

definition exampleClock :: "nat \<Rightarrow> int" where
  "exampleClock k = 1000 + int k"

section \<open>The playlist: upload, generated items and streams\<close>

lemma length_mapFiles: "length (mapFiles pf i u files) = length files"
  by (induction files arbitrary: i u) simp_all

lemma mapFiles_name: "map mi_name (mapFiles pf i u files) = map file_name files"
  by (induction files arbitrary: i u) (simp_all add: itemOfFile_def)

lemma mapFiles_type:
  "map mi_type (mapFiles pf i u files) = map (\<lambda>f. typeOfMime (file_type f)) files"
  by (induction files arbitrary: i u) (simp_all add: itemOfFile_def)

lemma mapFiles_id:
  "map mi_id (mapFiles pf i u files) = map (random_id pf) [i ..< i + length files]"
  by (induction files arbitrary: i u) (simp_all add: itemOfFile_def upt_conv_Cons del: upt_Suc)

lemma mapFiles_url:
  "map mi_url (mapFiles pf i u files) = map (objectURL pf) [u ..< u + length files]"
  by (induction files arbitrary: i u) (simp_all add: itemOfFile_def upt_conv_Cons del: upt_Suc)

lemma playlist_handleUpload:
  "playlist (handleUpload pf files app)
     = playlist app @ mapFiles pf (idCalls app) (urlCalls app) files"
  by (simp add: handleUpload_def Let_def)

text \<open>
  C3.  For every file list handed to \<open>handleUpload\<close>, the playlist grows by exactly one
  entry per file; the entries that were there stay in front, unchanged; the new
  entries stand behind them in the order of the files, each with the name of its file,
  the kind derived from its MIME type, a fresh id and a fresh blob URL.
\<close>

theorem upload_adds_one_entry_per_file:
  "length (playlist (handleUpload pf files app)) = length (playlist app) + length files
   \<and> take (length (playlist app)) (playlist (handleUpload pf files app)) = playlist app
   \<and> map mi_name (drop (length (playlist app)) (playlist (handleUpload pf files app)))
       = map file_name files
   \<and> map mi_type (drop (length (playlist app)) (playlist (handleUpload pf files app)))
       = map (\<lambda>f. typeOfMime (file_type f)) files
   \<and> map mi_id (drop (length (playlist app)) (playlist (handleUpload pf files app)))
       = map (random_id pf) [idCalls app ..< idCalls app + length files]
   \<and> map mi_url (drop (length (playlist app)) (playlist (handleUpload pf files app)))
       = map (objectURL pf) [urlCalls app ..< urlCalls app + length files]"
  by (simp add: playlist_handleUpload length_mapFiles mapFiles_name mapFiles_type
        mapFiles_id mapFiles_url)

text \<open>
  C10.  \<open>addToPlaylist\<close> puts the new item at the head of the playlist and leaves the
  entries behind it, the selected media id and the view as they were; the callbacks of
  both studios and \<open>handleAddStream\<close> prepend in the same way, while \<open>handleUpload\<close>
  appends.
\<close>

theorem generated_items_are_prepended:
  "playlist (addToPlaylist pf u nm t app)
     = \<lparr> mi_id = random_id pf (idCalls app), mi_name = nm, mi_url = u, mi_type = mediaTypeOf t,
         mi_mimeType = None, mi_duration = None, mi_isStream = None \<rparr> # playlist app
   \<and> currentMediaId (addToPlaylist pf u nm t app) = currentMediaId app
   \<and> currentView (addToPlaylist pf u nm t app) = currentView app
   \<and> playlist (onVideoGenerated pf u prompt app)
     = \<lparr> mi_id = random_id pf (idCalls app), mi_name = ''Veo: '' @ prompt, mi_url = u,
         mi_type = Video, mi_mimeType = None, mi_duration = None, mi_isStream = None \<rparr>
       # playlist app
   \<and> playlist (onImageGenerated pf u nm app)
     = \<lparr> mi_id = random_id pf (idCalls app), mi_name = nm, mi_url = u,
         mi_type = Image, mi_mimeType = None, mi_duration = None, mi_isStream = None \<rparr>
       # playlist app
   \<and> playlist (handleAddStream pf u app)
     = \<lparr> mi_id = random_id pf (idCalls app),
         mi_name = ''Stream '' @ show_nat (length (playlist app) + 1), mi_url = u,
         mi_type = Video, mi_mimeType = None, mi_duration = None, mi_isStream = Some True \<rparr>
       # playlist app
   \<and> playlist (handleUpload pf files app)
     = playlist app @ mapFiles pf (idCalls app) (urlCalls app) files"
  by (simp add: addToPlaylist_def onVideoGenerated_def onImageGenerated_def handleAddStream_def
        mediaTypeOf_def playlist_handleUpload Let_def)

section \<open>The player\<close>



text \<open>
  C4.  In a time-update step on a mounted media element, an active loop with both
  endpoints set resets the current time to \<open>a\<close> when the current time is at or past
  \<open>b\<close> and leaves the element alone before \<open>b\<close>; with the loop inactive or an endpoint
  unset the element is left as it was.  Without a media element the step does nothing.
\<close>

theorem ab_loop_control:
  "(videoRef p = None \<longrightarrow> handleTimeUpdate p = p)
   \<and> (videoRef p = Some v \<longrightarrow>
        (loop_active (loop p) \<and> loop_a (loop p) = Some a \<and> loop_b (loop p) = Some b
           \<and> currentTime v \<ge> b
         \<longrightarrow> videoRef (handleTimeUpdate p) = Some (v \<lparr> currentTime := a \<rparr>))
      \<and> (loop_active (loop p) \<and> loop_a (loop p) = Some a \<and> loop_b (loop p) = Some b
           \<and> currentTime v < b
         \<longrightarrow> videoRef (handleTimeUpdate p) = Some v)
      \<and> (\<not> loop_active (loop p) \<or> loop_a (loop p) = None \<or> loop_b (loop p) = None
         \<longrightarrow> videoRef (handleTimeUpdate p) = Some v))"
  by (auto simp: handleTimeUpdate_def loopCheck_def Let_def)

theorem ab_loop_control_witness:
  "videoRef (handleTimeUpdate examplePlayer) = Some (exampleVideo \<lparr> currentTime := 3 \<rparr>)
   \<and> videoRef (handleTimeUpdate
        (examplePlayer \<lparr> loop := \<lparr> loop_a = Some 3, loop_b = Some 20, loop_active = True \<rparr> \<rparr>))
       = Some exampleVideo
   \<and> videoRef (handleTimeUpdate
        (examplePlayer \<lparr> loop := \<lparr> loop_a = Some 3, loop_b = None, loop_active = True \<rparr> \<rparr>))
       = Some exampleVideo
   \<and> handleTimeUpdate (initialPlayer None) = initialPlayer None"
  using ab_loop_control [of examplePlayer exampleVideo 3 10]
    ab_loop_control [of "examplePlayer \<lparr> loop := \<lparr> loop_a = Some 3, loop_b = Some 20,
                                                  loop_active = True \<rparr> \<rparr>" exampleVideo 3 20]
    ab_loop_control [of "examplePlayer \<lparr> loop := \<lparr> loop_a = Some 3, loop_b = None,
                                                  loop_active = True \<rparr> \<rparr>" exampleVideo 3 10]
    ab_loop_control [of "initialPlayer None" exampleVideo 3 10]
  by (simp add: examplePlayer_def initialPlayer_def exampleVideo_def)

lemma bitLength_numeral:
  "bitLength (numeral (Num.Bit0 n)) = Suc (bitLength (numeral n))"
  "bitLength (numeral (Num.Bit1 n)) = Suc (bitLength (numeral n))"
  "bitLength 1 = 1" "bitLength 0 = 0" "bitLength (Suc 0) = 1"
  by (subst bitLength.simps, simp add: bitLength.simps)+

lemmas round64_eval = round64_def roundBinary_def exponentOf_def roundHalfEven_def pow2_def
  Let_def bitLength_numeral















lemma find_first_index:
  "i < length xs \<Longrightarrow> P (xs ! i) \<Longrightarrow> \<forall>j<i. \<not> P (xs ! j) \<Longrightarrow> find P xs = Some (xs ! i)"
proof (induction xs arbitrary: i)
  case Nil
  then show ?case by simp
next
  case (Cons x xs)
  show ?case
  proof (cases i)
    case 0
    with Cons.prems show ?thesis by simp
  next
    case (Suc k)
    with Cons.prems have "\<not> P x" by auto
    moreover from Suc Cons.prems have "find P xs = Some (xs ! k)"
      by (intro Cons.IH) auto
    ultimately show ?thesis using Suc by simp
  qed
qed

lemma find_none: "\<forall>x\<in>set xs. \<not> P x \<Longrightarrow> find P xs = None"
  by (simp add: find_None_iff)

text \<open>
  C6.  In a time-update step on a mounted media element with current time \<open>t\<close> seconds
  (read at the start of the step), the displayed subtitle is the text of the first
  loaded cue with \<open>start + offset <= t * 1000 <= end + offset\<close>, and the empty string
  when no cue is such; the sums, the product and the comparisons are those of
  JavaScript numbers, as the code evaluates them.
\<close>

theorem subtitle_is_first_active_cue:
  "videoRef p = Some v \<longrightarrow>
     (i < length (subtitles p)
        \<and> js_le (js_add (cue_start (subtitles p ! i)) (subtitleOffset p))
                (js_mul (Fin (currentTime v)) (Fin 1000))
        \<and> js_le (js_mul (Fin (currentTime v)) (Fin 1000))
                (js_add (cue_end (subtitles p ! i)) (subtitleOffset p))
        \<and> (\<forall>j<i. \<not> (js_le (js_add (cue_start (subtitles p ! j)) (subtitleOffset p))
                            (js_mul (Fin (currentTime v)) (Fin 1000))
                      \<and> js_le (js_mul (Fin (currentTime v)) (Fin 1000))
                              (js_add (cue_end (subtitles p ! j)) (subtitleOffset p))))
      \<longrightarrow> subtitleText (handleTimeUpdate p) = cue_text (subtitles p ! i))
   \<and> ((\<forall>s\<in>set (subtitles p).
           \<not> (js_le (js_add (cue_start s) (subtitleOffset p))
                    (js_mul (Fin (currentTime v)) (Fin 1000))
              \<and> js_le (js_mul (Fin (currentTime v)) (Fin 1000))
                      (js_add (cue_end s) (subtitleOffset p))))
      \<longrightarrow> subtitleText (handleTimeUpdate p) = [])"
proof (intro impI conjI)
  assume v: "videoRef p = Some v"
  {
    assume h: "i < length (subtitles p)
        \<and> js_le (js_add (cue_start (subtitles p ! i)) (subtitleOffset p))
                (js_mul (Fin (currentTime v)) (Fin 1000))
        \<and> js_le (js_mul (Fin (currentTime v)) (Fin 1000))
                (js_add (cue_end (subtitles p ! i)) (subtitleOffset p))
        \<and> (\<forall>j<i. \<not> (js_le (js_add (cue_start (subtitles p ! j)) (subtitleOffset p))
                            (js_mul (Fin (currentTime v)) (Fin 1000))
                      \<and> js_le (js_mul (Fin (currentTime v)) (Fin 1000))
                              (js_add (cue_end (subtitles p ! j)) (subtitleOffset p))))"
    then have "find (cueActive (currentTime v) (subtitleOffset p)) (subtitles p)
                 = Some (subtitles p ! i)"
      by (intro find_first_index) (auto simp: cueActive_def)
    with v show "subtitleText (handleTimeUpdate p) = cue_text (subtitles p ! i)"
      by (simp add: handleTimeUpdate_def Let_def)
  }
  {
    assume "\<forall>s\<in>set (subtitles p).
           \<not> (js_le (js_add (cue_start s) (subtitleOffset p))
                    (js_mul (Fin (currentTime v)) (Fin 1000))
              \<and> js_le (js_mul (Fin (currentTime v)) (Fin 1000))
                      (js_add (cue_end s) (subtitleOffset p)))"
    then have "find (cueActive (currentTime v) (subtitleOffset p)) (subtitles p) = None"
      by (intro find_none) (auto simp: cueActive_def)
    with v show "subtitleText (handleTimeUpdate p) = []"
      by (simp add: handleTimeUpdate_def Let_def)
  }
qed

lemma example_product: "js_mul (Fin 12) (Fin 1000) = Fin 12000"
  by (simp add: js_mul_def round64_eval)

lemma boundary_product:
  "js_mul (Fin boundaryTime) (Fin 1000) = Fin 4350 \<and> boundaryTime * 1000 < 4350"
  by (simp add: js_mul_def boundaryTime_def round64_eval)

lemma example_bounds:
  "round64 500 = Fin 500" "round64 5500 = Fin 5500" "round64 11500 = Fin 11500"
  "round64 13500 = Fin 13500" "round64 12500 = Fin 12500" "round64 14500 = Fin 14500"
  "round64 4350 = Fin 4350" "round64 5000 = Fin 5000"
  by (simp_all add: round64_eval)

theorem subtitle_is_first_active_cue_witness:
  "subtitleText (handleTimeUpdate examplePlayer) = ''two''
   \<and> subtitleText (handleTimeUpdate (examplePlayer \<lparr> subtitleOffset := NaN \<rparr>)) = []
   \<and> subtitleText (handleTimeUpdate boundaryPlayer) = ''edge''"
  using subtitle_is_first_active_cue [of examplePlayer exampleVideo 1]
    subtitle_is_first_active_cue [of "examplePlayer \<lparr> subtitleOffset := NaN \<rparr>" exampleVideo 0]
    subtitle_is_first_active_cue
      [of boundaryPlayer "exampleVideo \<lparr> currentTime := boundaryTime \<rparr>" 0]
  by (simp add: examplePlayer_def boundaryPlayer_def initialPlayer_def exampleVideo_def
        exampleCues_def less_Suc_eq example_product boundary_product example_bounds)

section \<open>Video generation\<close>

lemma pollUntilDone_done: "isDone operation \<Longrightarrow> pollUntilDone env fuel k operation = Some ([], Inr operation)"
  by (cases fuel) simp_all

lemma poll_step:
  "\<not> isDone operation \<Longrightarrow> getVideosOperation env k operation = Inr o1
   \<Longrightarrow> pollUntilDone env f (Suc k) o1 = Some (effs, r)
   \<Longrightarrow> pollUntilDone env (Suc f) k operation = Some (pollRound operation @ effs, r)"
  by (simp add: pollRound_def)

lemma poll_complete:
  "statusAfter env k operation n = Inr operation' \<Longrightarrow> isDone operation'
   \<Longrightarrow> \<forall>i<n. \<exists>x. statusAfter env k operation i = Inr x \<and> \<not> isDone x
   \<Longrightarrow> n \<le> fuel
   \<Longrightarrow> pollUntilDone env fuel k operation
        = Some (concat (map pollRound (pendingStatuses env k operation n)), Inr operation')"
proof (induction n arbitrary: fuel k operation)
  case 0
  then show ?case by (simp add: pollUntilDone_done)
next
  case (Suc n)
  from Suc.prems(3) have nd: "\<not> isDone operation" by fastforce
  from Suc.prems(4) obtain f where f: "fuel = Suc f" and nf: "n \<le> f"
    by (cases fuel) auto
  from Suc.prems(1) obtain o1 where q: "getVideosOperation env k operation = Inr o1"
      and s1: "statusAfter env (Suc k) o1 n = Inr operation'"
    by (auto split: sum.splits)
  have "\<forall>i<n. \<exists>x. statusAfter env (Suc k) o1 i = Inr x \<and> \<not> isDone x"
  proof (intro allI impI)
    fix i assume "i < n"
    then have "Suc i < Suc n" by simp
    with Suc.prems(3) obtain x where "statusAfter env k operation (Suc i) = Inr x \<and> \<not> isDone x"
      by blast
    with q show "\<exists>x. statusAfter env (Suc k) o1 i = Inr x \<and> \<not> isDone x" by simp
  qed
  with Suc.IH [OF s1 Suc.prems(2) _ nf]
  have "pollUntilDone env f (Suc k) o1
          = Some (concat (map pollRound (pendingStatuses env (Suc k) o1 n)), Inr operation')"
    by blast
  with nd q f show ?case by (simp add: poll_step del: pollUntilDone.simps)
qed

lemma poll_sound:
  "pollUntilDone env fuel k operation = Some (effs, Inr operation')
   \<Longrightarrow> isDone operation'
       \<and> (\<exists>n\<le>fuel. statusAfter env k operation n = Inr operation'
             \<and> (\<forall>i<n. \<exists>x. statusAfter env k operation i = Inr x \<and> \<not> isDone x)
             \<and> effs = concat (map pollRound (pendingStatuses env k operation n))
             \<and> length (pendingStatuses env k operation n) = n
             \<and> (\<forall>x\<in>set (pendingStatuses env k operation n). \<not> isDone x))"
proof (induction fuel arbitrary: k operation effs)
  case 0
  then have "isDone operation \<and> effs = [] \<and> operation' = operation"
    by (auto split: if_splits)
  then show ?case by (intro conjI exI [of _ 0]) simp_all
next
  case (Suc fuel)
  show ?case
  proof (cases "isDone operation")
    case True
    with Suc.prems have "effs = [] \<and> operation' = operation" by simp
    with True show ?thesis by (intro conjI exI [of _ 0]) simp_all
  next
    case False
    with Suc.prems obtain o1 effs1 where q: "getVideosOperation env k operation = Inr o1"
        and r: "pollUntilDone env fuel (Suc k) o1 = Some (effs1, Inr operation')"
        and e: "effs = pollRound operation @ effs1"
      by (auto simp: pollRound_def split: sum.splits option.splits)
    from Suc.IH [OF r] obtain n where d: "isDone operation'" and n: "n \<le> fuel"
        and s: "statusAfter env (Suc k) o1 n = Inr operation'"
        and a: "\<forall>i<n. \<exists>x. statusAfter env (Suc k) o1 i = Inr x \<and> \<not> isDone x"
        and t: "effs1 = concat (map pollRound (pendingStatuses env (Suc k) o1 n))"
        and l: "length (pendingStatuses env (Suc k) o1 n) = n"
        and p: "\<forall>x\<in>set (pendingStatuses env (Suc k) o1 n). \<not> isDone x"
      by blast
    have a': "\<forall>i<Suc n. \<exists>x. statusAfter env k operation i = Inr x \<and> \<not> isDone x"
    proof (intro allI impI)
      fix i assume i: "i < Suc n"
      show "\<exists>x. statusAfter env k operation i = Inr x \<and> \<not> isDone x"
      proof (cases i)
        case 0
        with False show ?thesis by simp
      next
        case (Suc j)
        with i a q show ?thesis by simp
      qed
    qed
    from d n s a' t l p q e False show ?thesis
      by (intro conjI exI [of _ "Suc n"]) simp_all
  qed
qed

lemma poll_no_fetch:
  "pollUntilDone env fuel k operation = Some (effs, r) \<Longrightarrow> filter isFetch effs = []"
proof (induction fuel arbitrary: k operation effs)
  case 0
  then show ?case by (auto split: if_splits)
next
  case (Suc fuel)
  then show ?case
    by (auto simp: isFetch_def split: if_splits sum.splits option.splits)
qed

lemma example_poll:
  "pollUntilDone exampleEnv 5 0 pendingOperation
     = Some (pollRound pendingOperation
             @ pollRound (pendingOperation \<lparr> op_done := Some False \<rparr>)
             @ pollRound (pendingOperation \<lparr> op_done := Some False \<rparr>), Inr doneOperation)"
  by (simp add: eval_nat_numeral exampleEnv_def isDone_def pendingOperation_def
        doneOperation_def pollRound_def)

lemma example_uri: "videoUriOf doneOperation = Some ''https://v.example/1?alt=media''"
  by (simp add: videoUriOf_def doneOperation_def nth_opt_def)

text \<open>
  C7.  The poll loop of \<open>generateVeoVideo\<close>: when it ends normally, the operation it
  ends with has its done flag set to \<open>true\<close>, and its effects are one round (a sleep
  of 5000 ms, then one status query, then the log line) for each status that was not
  done, in order, and nothing else.  When the service reports a done operation after
  \<open>n\<close> queries, all earlier statuses being not done, every fuel of at least \<open>n\<close> lets
  the loop end with that operation after exactly \<open>n\<close> rounds.
\<close>

theorem poll_until_done:
  "(pollUntilDone env fuel k operation = Some (effs, Inr operation')
      \<longrightarrow> isDone operation'
         \<and> (\<exists>n\<le>fuel. statusAfter env k operation n = Inr operation'
               \<and> (\<forall>i<n. \<exists>x. statusAfter env k operation i = Inr x \<and> \<not> isDone x)
               \<and> effs = concat (map pollRound (pendingStatuses env k operation n))
               \<and> length (pendingStatuses env k operation n) = n
               \<and> (\<forall>x\<in>set (pendingStatuses env k operation n). \<not> isDone x)))
   \<and> (statusAfter env k operation n = Inr operation' \<and> isDone operation'
        \<and> (\<forall>i<n. \<exists>x. statusAfter env k operation i = Inr x \<and> \<not> isDone x) \<and> n \<le> fuel
      \<longrightarrow> pollUntilDone env fuel k operation
            = Some (concat (map pollRound (pendingStatuses env k operation n)), Inr operation'))"
  using poll_sound [of env fuel k operation effs operation']
    poll_complete [of env k operation n operation' fuel]
  by blast

theorem poll_until_done_witness:
  "pollUntilDone exampleEnv 5 0 pendingOperation
     = Some (pollRound pendingOperation
             @ pollRound (pendingOperation \<lparr> op_done := Some False \<rparr>)
             @ pollRound (pendingOperation \<lparr> op_done := Some False \<rparr>), Inr doneOperation)
   \<and> isDone doneOperation
   \<and> pollUntilDone exampleEnv 2 0 pendingOperation = None"
proof -
  note inst = poll_until_done
    [of exampleEnv 5 0 pendingOperation
        "pollRound pendingOperation
         @ pollRound (pendingOperation \<lparr> op_done := Some False \<rparr>)
         @ pollRound (pendingOperation \<lparr> op_done := Some False \<rparr>)"
        doneOperation 3]
  have h1: "statusAfter exampleEnv 0 pendingOperation 3 = Inr doneOperation"
    by (simp add: eval_nat_numeral exampleEnv_def)
  have h2: "isDone doneOperation"
    using inst [THEN conjunct1, THEN mp, OF example_poll] by (rule conjunct1)
  have h3: "\<forall>i<3. \<exists>x. statusAfter exampleEnv 0 pendingOperation i = Inr x \<and> \<not> isDone x"
    by (simp add: eval_nat_numeral less_Suc_eq exampleEnv_def isDone_def pendingOperation_def)
  have h4: "pendingStatuses exampleEnv 0 pendingOperation 3
              = [pendingOperation, pendingOperation \<lparr> op_done := Some False \<rparr>,
                 pendingOperation \<lparr> op_done := Some False \<rparr>]"
    by (simp add: eval_nat_numeral exampleEnv_def)
  have h5: "pollUntilDone exampleEnv 2 0 pendingOperation = None"
    by (simp add: eval_nat_numeral exampleEnv_def isDone_def pendingOperation_def)
  from inst [THEN conjunct2] h1 h2 h3
  have "pollUntilDone exampleEnv 5 0 pendingOperation
          = Some (concat (map pollRound (pendingStatuses exampleEnv 0 pendingOperation 3)),
                  Inr doneOperation)"
    by simp
  with h2 h4 h5 show ?thesis by simp
qed

text \<open>
  C8.  After a generation run whose poll loop ended with a completed operation: when
  the first generated video of the response carries a non-empty URI,
  \<open>generateVeoVideo\<close> issues exactly one fetch, of that URI followed by \<open>&key=\<close> and
  the API key, and, the download succeeding, returns the object URL of the fetched
  blob; when it carries no URI (or an empty one), no fetch is made and the result is
  \<open>null\<close>.
\<close>

theorem video_fetched_once_after_completion:
  "generateVideos env (veoParams prompt ar res img) = Inr operation0
   \<and> pollUntilDone env fuel 0 operation0 = Some (effs, Inr operation)
   \<longrightarrow>
     (videoUriOf operation = Some uri \<and> uri \<noteq> [] \<longrightarrow>
        (\<exists>all r. generateVeoVideo env fuel prompt ar res img = Some (all, r)
           \<and> filter isFetch all = [Call (Fetch (uri @ ''&key='' @ render_opt (api_key env)))])
        \<and> (fetch env (uri @ ''&key='' @ render_opt (api_key env)) = Inr response
             \<and> blob env response = Inr b
           \<longrightarrow> generateVeoVideo env fuel prompt ar res img
               = Some (Call (GenerateVideos (veoParams prompt ar res img)) # effs
                        @ [Call (Fetch (uri @ ''&key='' @ render_opt (api_key env)))],
                       Inr (Some (createObjectURL env b)))))
     \<and> (videoUriOf operation = None \<or> videoUriOf operation = Some []
        \<longrightarrow> generateVeoVideo env fuel prompt ar res img
            = Some (Call (GenerateVideos (veoParams prompt ar res img)) # effs, Inr None))"
proof (intro impI conjI)
  assume a: "generateVideos env (veoParams prompt ar res img) = Inr operation0
   \<and> pollUntilDone env fuel 0 operation0 = Some (effs, Inr operation)"
  then have nf: "filter isFetch effs = []"
    using poll_no_fetch [of env fuel 0 operation0 effs "Inr operation"] by simp
  {
    assume u: "videoUriOf operation = Some uri \<and> uri \<noteq> []"
    with a nf show "\<exists>all r. generateVeoVideo env fuel prompt ar res img = Some (all, r)
           \<and> filter isFetch all = [Call (Fetch (uri @ ''&key='' @ render_opt (api_key env)))]"
      by (auto simp: generateVeoVideo_def retrieveVideo_def catch_rethrow_def Let_def
            truthy_opt_def truthy_def render_opt_def isFetch_def split: sum.splits)
    assume "fetch env (uri @ ''&key='' @ render_opt (api_key env)) = Inr response
             \<and> blob env response = Inr b"
    with a u show "generateVeoVideo env fuel prompt ar res img
               = Some (Call (GenerateVideos (veoParams prompt ar res img)) # effs
                        @ [Call (Fetch (uri @ ''&key='' @ render_opt (api_key env)))],
                       Inr (Some (createObjectURL env b)))"
      by (simp add: generateVeoVideo_def retrieveVideo_def catch_rethrow_def Let_def
            truthy_opt_def truthy_def render_opt_def)
  }
  {
    assume "videoUriOf operation = None \<or> videoUriOf operation = Some []"
    with a show "generateVeoVideo env fuel prompt ar res img
            = Some (Call (GenerateVideos (veoParams prompt ar res img)) # effs, Inr None)"
      by (auto simp: generateVeoVideo_def retrieveVideo_def catch_rethrow_def Let_def
            truthy_opt_def truthy_def)
  }
qed

theorem video_fetched_once_after_completion_witness:
  "generateVeoVideo exampleEnv 5 ''a cat'' VA_16_9 R720p None
     = Some (Call (GenerateVideos (veoParams ''a cat'' VA_16_9 R720p None))
             # (pollRound pendingOperation
                @ pollRound (pendingOperation \<lparr> op_done := Some False \<rparr>)
                @ pollRound (pendingOperation \<lparr> op_done := Some False \<rparr>))
             @ [Call (Fetch ''https://v.example/1?alt=media&key=KEY'')],
             Inr (Some ''blob:video''))
   \<and> generateVeoVideo
        (exampleEnv \<lparr> generateVideos := (\<lambda>params. Inr \<lparr> op_done = Some True, op_response = None \<rparr>) \<rparr>)
        5 ''a cat'' VA_16_9 R720p None
     = Some ([Call (GenerateVideos (veoParams ''a cat'' VA_16_9 R720p None))], Inr None)"
proof -
  have g: "generateVideos exampleEnv (veoParams ''a cat'' VA_16_9 R720p None) = Inr pendingOperation"
    by (simp add: exampleEnv_def)
  have f: "fetch exampleEnv (''https://v.example/1?alt=media'' @ ''&key='' @ render_opt (api_key exampleEnv)) = Inr 1
           \<and> blob exampleEnv 1 = Inr 2"
    by (simp add: exampleEnv_def)
  have c: "createObjectURL exampleEnv 2 = ''blob:video''"
    by (simp add: exampleEnv_def)
  have k: "render_opt (api_key exampleEnv) = ''KEY''"
    by (simp add: exampleEnv_def render_opt_def)
  have first: "generateVeoVideo exampleEnv 5 ''a cat'' VA_16_9 R720p None
     = Some (Call (GenerateVideos (veoParams ''a cat'' VA_16_9 R720p None))
             # (pollRound pendingOperation
                @ pollRound (pendingOperation \<lparr> op_done := Some False \<rparr>)
                @ pollRound (pendingOperation \<lparr> op_done := Some False \<rparr>))
             @ [Call (Fetch ''https://v.example/1?alt=media&key=KEY'')],
             Inr (Some ''blob:video''))"
    using video_fetched_once_after_completion
      [of exampleEnv "''a cat''" VA_16_9 R720p None pendingOperation 5 _ doneOperation
          "''https://v.example/1?alt=media''" 1 2]
      g example_poll example_uri f c k
    by simp
  let ?env = "exampleEnv \<lparr> generateVideos := (\<lambda>params. Inr \<lparr> op_done = Some True, op_response = None \<rparr>) \<rparr>"
  have p: "pollUntilDone ?env 5 0 \<lparr> op_done = Some True, op_response = None \<rparr>
             = Some ([], Inr \<lparr> op_done = Some True, op_response = None \<rparr>)"
    by (simp add: eval_nat_numeral isDone_def)
  have u: "videoUriOf \<lparr> op_done = Some True, op_response = None \<rparr> = None"
    by (simp add: videoUriOf_def)
  have second: "generateVeoVideo ?env 5 ''a cat'' VA_16_9 R720p None
     = Some ([Call (GenerateVideos (veoParams ''a cat'' VA_16_9 R720p None))], Inr None)"
    using video_fetched_once_after_completion
      [of ?env "''a cat''" VA_16_9 R720p None "\<lparr> op_done = Some True, op_response = None \<rparr>" 5 "[]"
          "\<lparr> op_done = Some True, op_response = None \<rparr>" "[]" 1 2] p u
    by simp
  from first second show ?thesis by simp
qed

section \<open>The studios and the assistant\<close>

lemma example_generate:
  "generateVeoVideo exampleEnv 5 [] VA_16_9 R720p (Some ''data:image/png;base64,AAAA'')
     = Some (Call (GenerateVideos (veoParams [] VA_16_9 R720p (Some ''data:image/png;base64,AAAA'')))
             # (pollRound pendingOperation
                @ pollRound (pendingOperation \<lparr> op_done := Some False \<rparr>)
                @ pollRound (pendingOperation \<lparr> op_done := Some False \<rparr>))
             @ [Call (Fetch ''https://v.example/1?alt=media&key=KEY'')],
             Inr (Some ''blob:video''))"
proof -
  have g: "generateVideos exampleEnv (veoParams [] VA_16_9 R720p (Some ''data:image/png;base64,AAAA'')) = Inr pendingOperation"
    by (simp add: exampleEnv_def)
  have r: "retrieveVideo exampleEnv doneOperation
             = ([Call (Fetch ''https://v.example/1?alt=media&key=KEY'')], Inr (Some ''blob:video''))"
    by (simp add: retrieveVideo_def example_uri truthy_opt_def truthy_def render_opt_def
          exampleEnv_def Let_def)
  show ?thesis
    by (simp add: generateVeoVideo_def Let_def g example_poll r catch_rethrow_def)
qed

lemma example_image_to_video:
  "vs_prompt exampleVeoWithImage = []
   \<and> handleGenerate exampleEnv 5 (onVideoGenerated examplePlatform) exampleVeoWithImage initialApp
     = Some (exampleVeoWithImage,
             addToPlaylist examplePlatform ''blob:video'' ''Veo: Image to Video'' GenVideo initialApp,
             Call (GenerateVideos (veoParams [] VA_16_9 R720p (Some ''data:image/png;base64,AAAA'')))
             # (pollRound pendingOperation
                @ pollRound (pendingOperation \<lparr> op_done := Some False \<rparr>)
                @ pollRound (pendingOperation \<lparr> op_done := Some False \<rparr>))
             @ [Call (Fetch ''https://v.example/1?alt=media&key=KEY'')])
   \<and> playlist (addToPlaylist examplePlatform ''blob:video'' ''Veo: Image to Video'' GenVideo initialApp)
       \<noteq> playlist initialApp"
proof -
  have c: "checkApiKey exampleEnv = ([], Inr ())"
    by (simp add: checkApiKey_def exampleEnv_def)
  have s: "vs_prompt exampleVeoWithImage = []
           \<and> vs_inputImage exampleVeoWithImage = Some ''data:image/png;base64,AAAA''
           \<and> vs_config exampleVeoWithImage = \<lparr> vc_prompt = [], vc_aspectRatio = VA_16_9, vc_resolution = R720p \<rparr>"
    by (simp add: exampleVeoWithImage_def initialVeoStudio_def)
  have b: "veoGenerateBody exampleEnv 5 (onVideoGenerated examplePlatform)
             (exampleVeoWithImage \<lparr> vs_isGenerating := True, vs_error := None \<rparr>) initialApp
           = Some (Call (GenerateVideos (veoParams [] VA_16_9 R720p (Some ''data:image/png;base64,AAAA'')))
             # (pollRound pendingOperation
                @ pollRound (pendingOperation \<lparr> op_done := Some False \<rparr>)
                @ pollRound (pendingOperation \<lparr> op_done := Some False \<rparr>))
             @ [Call (Fetch ''https://v.example/1?alt=media&key=KEY'')],
             Inr (addToPlaylist examplePlatform ''blob:video'' ''Veo: Image to Video'' GenVideo initialApp))"
    by (simp add: veoGenerateBody_def c s truthy_opt_def truthy_def example_generate
          render_opt_def onVideoGenerated_def)
  have "handleGenerate exampleEnv 5 (onVideoGenerated examplePlatform) exampleVeoWithImage initialApp
     = Some (exampleVeoWithImage,
             addToPlaylist examplePlatform ''blob:video'' ''Veo: Image to Video'' GenVideo initialApp,
             Call (GenerateVideos (veoParams [] VA_16_9 R720p (Some ''data:image/png;base64,AAAA'')))
             # (pollRound pendingOperation
                @ pollRound (pendingOperation \<lparr> op_done := Some False \<rparr>)
                @ pollRound (pendingOperation \<lparr> op_done := Some False \<rparr>))
             @ [Call (Fetch ''https://v.example/1?alt=media&key=KEY'')])"
    by (simp add: handleGenerate_def s truthy_opt_def truthy_def Let_def b)
       (simp add: exampleVeoWithImage_def initialVeoStudio_def)
  moreover have "playlist (addToPlaylist examplePlatform ''blob:video'' ''Veo: Image to Video'' GenVideo initialApp)
       \<noteq> playlist initialApp"
    by (simp add: addToPlaylist_def initialApp_def Let_def)
  ultimately show ?thesis using s by simp
qed

lemma generateVeoVideo_starts:
  assumes "generateVeoVideo env fuel p a r i = Some (effs, res)"
  shows "\<exists>rest. effs = Call (GenerateVideos (veoParams p a r i)) # rest"
proof (cases "generateVideos env (veoParams p a r i)")
  case (Inl e)
  with assms show ?thesis
    by (auto simp: generateVeoVideo_def Let_def catch_rethrow_def)
next
  case (Inr operation0)
  note g0 = this
  show ?thesis
  proof (cases "pollUntilDone env fuel 0 operation0")
    case None
    with g0 assms show ?thesis by (simp add: generateVeoVideo_def Let_def)
  next
    case (Some pr)
    obtain effs1 r1 where pr: "pr = (effs1, r1)" by (cases pr)
    show ?thesis
    proof (cases r1)
      case (Inl e)
      with g0 Some pr assms show ?thesis
        by (auto simp: generateVeoVideo_def Let_def catch_rethrow_def)
    next
      case (Inr operation1)
      obtain effs2 r2 where rv: "retrieveVideo env operation1 = (effs2, r2)"
        by (cases "retrieveVideo env operation1")
      with g0 Some pr Inr assms show ?thesis
        by (cases r2) (auto simp: generateVeoVideo_def Let_def catch_rethrow_def)
    qed
  qed
qed

lemma checkApiKey_thrown: "checkApiKey env = (effs, Inl e) \<Longrightarrow> effs \<noteq> []"
  by (auto simp: checkApiKey_def split: option.splits sum.splits if_splits)

lemma handleGenerate_with_image:
  assumes "vs_prompt v = []" "truthy_opt (vs_inputImage v)"
    "handleGenerate env fuel onVideo v w = Some (v', w', effs)"
  shows "effs \<noteq> []
         \<and> (snd (checkApiKey env) = Inr ()
            \<longrightarrow> Call (GenerateVideos (veoParams [] (vc_aspectRatio (vs_config v))
                                         (vc_resolution (vs_config v)) (vs_inputImage v)))
                  \<in> set effs)"
proof (cases "checkApiKey env")
  case (Pair effs1 r1)
  show ?thesis
  proof (cases r1)
    case (Inl e)
    with Pair have "effs1 \<noteq> []" by (auto dest: checkApiKey_thrown)
    with Pair Inl assms show ?thesis
      by (cases "message_or e ''An unexpected error occurred.''")
         (auto simp: handleGenerate_def veoGenerateBody_def Let_def)
  next
    case (Inr u)
    show ?thesis
    proof (cases "generateVeoVideo env fuel [] (vc_aspectRatio (vs_config v))
                    (vc_resolution (vs_config v)) (vs_inputImage v)")
      case None
      with Pair Inr assms show ?thesis
        by (simp add: handleGenerate_def veoGenerateBody_def Let_def)
    next
      case (Some g)
      obtain effs2 res where g: "g = (effs2, res)" by (cases g)
      from Some g have "generateVeoVideo env fuel [] (vc_aspectRatio (vs_config v))
                    (vc_resolution (vs_config v)) (vs_inputImage v) = Some (effs2, res)"
        by simp
      from generateVeoVideo_starts [OF this]
      obtain rest where r: "effs2 = Call (GenerateVideos (veoParams [] (vc_aspectRatio (vs_config v))
                                         (vc_resolution (vs_config v)) (vs_inputImage v))) # rest"
        by auto
      from Pair Inr Some g assms have "\<exists>more. effs = effs1 @ effs2 @ more"
        by (auto simp: handleGenerate_def veoGenerateBody_def Let_def
              split: sum.splits if_splits)
      with r show ?thesis by auto
    qed
  qed
qed

text \<open>
  C1 (amended).  In the Image Studio a click on the action with an empty prompt is a
  no-op: no request is issued and the studio state and the parent's state are
  unchanged.  In the Veo Studio a click on generate is such a no-op when the prompt is
  empty and no reference image is set.  With a reference image set, a click with an
  empty prompt is not a no-op: a run of the handler that ends has issued a request,
  and when the key check passes it has issued the video-generation request for the
  image.
\<close>

theorem empty_prompt_is_noop:
  "(is_prompt s = [] \<longrightarrow> handleAction env onImage s w = (s, w, []))
   \<and> (vs_prompt v = [] \<and> (vs_inputImage v = None \<or> vs_inputImage v = Some [])
        \<longrightarrow> handleGenerate env fuel onVideo v w' = Some (v, w', []))
   \<and> (vs_prompt v = [] \<and> truthy_opt (vs_inputImage v)
        \<and> handleGenerate env fuel onVideo v w' = Some (v', w'', effs)
        \<longrightarrow> effs \<noteq> []
           \<and> (snd (checkApiKey env) = Inr ()
              \<longrightarrow> Call (GenerateVideos (veoParams [] (vc_aspectRatio (vs_config v))
                                           (vc_resolution (vs_config v)) (vs_inputImage v)))
                    \<in> set effs))"
proof (intro conjI)
  show "is_prompt s = [] \<longrightarrow> handleAction env onImage s w = (s, w, [])"
    by (simp add: handleAction_def truthy_def)
  show "vs_prompt v = [] \<and> (vs_inputImage v = None \<or> vs_inputImage v = Some [])
        \<longrightarrow> handleGenerate env fuel onVideo v w' = Some (v, w', [])"
    by (auto simp: handleGenerate_def truthy_def truthy_opt_def)
  show "vs_prompt v = [] \<and> truthy_opt (vs_inputImage v)
        \<and> handleGenerate env fuel onVideo v w' = Some (v', w'', effs)
        \<longrightarrow> effs \<noteq> []
           \<and> (snd (checkApiKey env) = Inr ()
              \<longrightarrow> Call (GenerateVideos (veoParams [] (vc_aspectRatio (vs_config v))
                                           (vc_resolution (vs_config v)) (vs_inputImage v)))
                    \<in> set effs)"
    using handleGenerate_with_image [of v env fuel onVideo w' v' w'' effs] by blast
qed

theorem empty_prompt_is_noop_witness:
  "handleAction exampleEnv (onImageGenerated examplePlatform) initialImageStudio initialApp
     = (initialImageStudio, initialApp, [])
   \<and> handleGenerate exampleEnv 5 (onVideoGenerated examplePlatform) initialVeoStudio initialApp
     = Some (initialVeoStudio, initialApp, [])
   \<and> Call (GenerateVideos (veoParams [] VA_16_9 R720p (Some ''data:image/png;base64,AAAA'')))
       \<in> set (Call (GenerateVideos (veoParams [] VA_16_9 R720p (Some ''data:image/png;base64,AAAA'')))
               # (pollRound pendingOperation
                  @ pollRound (pendingOperation \<lparr> op_done := Some False \<rparr>)
                  @ pollRound (pendingOperation \<lparr> op_done := Some False \<rparr>))
               @ [Call (Fetch ''https://v.example/1?alt=media&key=KEY'')])"
proof -
  have n: "is_prompt initialImageStudio = []"
    by (simp add: initialImageStudio_def)
  have m: "vs_prompt initialVeoStudio = []
           \<and> (vs_inputImage initialVeoStudio = None \<or> vs_inputImage initialVeoStudio = Some [])"
    by (simp add: initialVeoStudio_def)
  have i: "vs_prompt exampleVeoWithImage = [] \<and> truthy_opt (vs_inputImage exampleVeoWithImage)
        \<and> handleGenerate exampleEnv 5 (onVideoGenerated examplePlatform) exampleVeoWithImage
             initialApp
           = Some (exampleVeoWithImage,
             addToPlaylist examplePlatform ''blob:video'' ''Veo: Image to Video'' GenVideo initialApp,
             Call (GenerateVideos (veoParams [] VA_16_9 R720p (Some ''data:image/png;base64,AAAA'')))
             # (pollRound pendingOperation
                @ pollRound (pendingOperation \<lparr> op_done := Some False \<rparr>)
                @ pollRound (pendingOperation \<lparr> op_done := Some False \<rparr>))
             @ [Call (Fetch ''https://v.example/1?alt=media&key=KEY'')])"
    using example_image_to_video
    by (simp add: exampleVeoWithImage_def initialVeoStudio_def truthy_opt_def truthy_def)
  have k: "snd (checkApiKey exampleEnv) = Inr ()"
    by (simp add: checkApiKey_def exampleEnv_def)
  have c: "vs_config exampleVeoWithImage
             = \<lparr> vc_prompt = [], vc_aspectRatio = VA_16_9, vc_resolution = R720p \<rparr>
           \<and> vs_inputImage exampleVeoWithImage = Some ''data:image/png;base64,AAAA''"
    by (simp add: exampleVeoWithImage_def initialVeoStudio_def)
  note noop = empty_prompt_is_noop
    [of initialImageStudio exampleEnv "onImageGenerated examplePlatform" initialApp
        initialVeoStudio 5 "onVideoGenerated examplePlatform" initialApp]
  note img = empty_prompt_is_noop
    [where v = exampleVeoWithImage and env = exampleEnv and fuel = 5
       and onVideo = "onVideoGenerated examplePlatform" and w' = initialApp,
     THEN conjunct2, THEN conjunct2, THEN mp, OF i, THEN conjunct2, THEN mp, OF k]
  from noop [THEN conjunct1, THEN mp, OF n] noop [THEN conjunct2, THEN conjunct1, THEN mp, OF m]
    img c
  show ?thesis by simp
qed

text \<open>
  C1 as stated fails in the Veo Studio: with an empty prompt and a reference image the
  click issues a generation request, and the generated video enters the playlist under
  the name \<open>Veo: Image to Video\<close>.
\<close>

theorem empty_prompt_with_image_generates:
  "vs_prompt exampleVeoWithImage = []
   \<and> handleGenerate exampleEnv 5 (onVideoGenerated examplePlatform) exampleVeoWithImage initialApp
     = Some (exampleVeoWithImage,
             addToPlaylist examplePlatform ''blob:video'' ''Veo: Image to Video'' GenVideo initialApp,
             Call (GenerateVideos (veoParams [] VA_16_9 R720p (Some ''data:image/png;base64,AAAA'')))
             # (pollRound pendingOperation
                @ pollRound (pendingOperation \<lparr> op_done := Some False \<rparr>)
                @ pollRound (pendingOperation \<lparr> op_done := Some False \<rparr>))
             @ [Call (Fetch ''https://v.example/1?alt=media&key=KEY'')])
   \<and> playlist (addToPlaylist examplePlatform ''blob:video'' ''Veo: Image to Video'' GenVideo initialApp)
       \<noteq> playlist initialApp"
  by (rule example_image_to_video)

lemma message_or_shown:
  "e \<noteq> Nullish \<Longrightarrow> dflt \<noteq> [] \<Longrightarrow> \<exists>msg. message_or e dflt = Inr msg \<and> msg \<noteq> []"
  by (cases e) (auto simp: truthy_opt_def truthy_def render_opt_def split: option.splits)

lemma handleAction_thrown:
  assumes "truthy (is_prompt s)"
    "imageActionBody env cb (s \<lparr> is_isProcessing := True, is_error := None \<rparr>) w = (effs, Inl e)"
    "e \<noteq> Nullish"
  shows "\<exists>msg. msg \<noteq> []
           \<and> handleAction env cb s w
               = (s \<lparr> is_isProcessing := False, is_error := Some msg \<rparr>, w, effs)"
proof -
  from message_or_shown [OF assms(3), of "''Operation failed.''"]
  obtain msg where "message_or e ''Operation failed.'' = Inr msg" "msg \<noteq> []" by auto
  with assms(1,2) show ?thesis
    by (intro exI [of _ msg]) (simp add: handleAction_def Let_def)
qed

lemma imageActionBody_generate_fails:
  assumes "is_activeTab s = TabGenerate" "snd (checkApiKey env) \<noteq> Inl Nullish"
    "generateContent env ''gemini-3-pro-image-preview'' [TextPart (is_prompt s)]
         (ImageGenConfig (ic_aspectRatio (is_config s)) (ic_size (is_config s))) = Inl (Error m)"
  shows "\<exists>effs e'. imageActionBody env cb s w = (effs, Inl e') \<and> e' \<noteq> Nullish"
proof (cases "checkApiKey env")
  case (Pair effs1 r1)
  with assms show ?thesis
    by (cases r1) (auto simp: imageActionBody_def generateImage_def catch_rethrow_def)
qed

lemma imageActionBody_edit_fails:
  assumes "is_activeTab s = TabEdit" "is_selectedImageForEdit s = Some img"
    "generateContent env ''gemini-2.5-flash-image''
         [InlineDataPart ''image/png'' (nth_opt (split_js CHR '','' img) 1), TextPart (is_prompt s)]
         NoConfig = Inl (Error m)"
  shows "\<exists>effs e'. imageActionBody env cb s w = (effs, Inl e') \<and> e' \<noteq> Nullish"
  using assms
  by (auto simp: imageActionBody_def editImage_def catch_rethrow_def render_opt_def Let_def)

lemma image_generation_failure_shown:
  assumes "truthy (is_prompt s)" "is_activeTab s = TabGenerate"
    "snd (checkApiKey env) \<noteq> Inl Nullish"
    "generateContent env ''gemini-3-pro-image-preview'' [TextPart (is_prompt s)]
         (ImageGenConfig (ic_aspectRatio (is_config s)) (ic_size (is_config s))) = Inl (Error m)"
  shows "\<exists>msg. is_error (fst (handleAction env cb s w)) = Some msg \<and> msg \<noteq> []
           \<and> \<not> is_isProcessing (fst (handleAction env cb s w))
           \<and> fst (snd (handleAction env cb s w)) = w"
proof -
  from imageActionBody_generate_fails
    [of "s \<lparr> is_isProcessing := True, is_error := None \<rparr>" env m cb w] assms
  obtain effs e' where "imageActionBody env cb (s \<lparr> is_isProcessing := True, is_error := None \<rparr>) w
                          = (effs, Inl e')" "e' \<noteq> Nullish"
    by auto
  from handleAction_thrown [OF assms(1) this] show ?thesis by auto
qed

lemma image_editing_failure_shown:
  assumes "truthy (is_prompt s)" "is_activeTab s = TabEdit" "is_selectedImageForEdit s = Some img"
    "generateContent env ''gemini-2.5-flash-image''
         [InlineDataPart ''image/png'' (nth_opt (split_js CHR '','' img) 1), TextPart (is_prompt s)]
         NoConfig = Inl (Error m)"
  shows "\<exists>msg. is_error (fst (handleAction env cb s w)) = Some msg \<and> msg \<noteq> []
           \<and> \<not> is_isProcessing (fst (handleAction env cb s w))
           \<and> fst (snd (handleAction env cb s w)) = w"
proof -
  from imageActionBody_edit_fails
    [of "s \<lparr> is_isProcessing := True, is_error := None \<rparr>" img env m cb w] assms
  obtain effs e' where "imageActionBody env cb (s \<lparr> is_isProcessing := True, is_error := None \<rparr>) w
                          = (effs, Inl e')" "e' \<noteq> Nullish"
    by auto
  from handleAction_thrown [OF assms(1) this] show ?thesis by auto
qed

lemma video_generation_failure_shown:
  assumes "truthy (vs_prompt v) \<or> truthy_opt (vs_inputImage v)"
    "snd (checkApiKey env) \<noteq> Inl Nullish"
    "generateVeoVideo env fuel (vs_prompt v) (vc_aspectRatio (vs_config v))
        (vc_resolution (vs_config v))
        (if truthy_opt (vs_inputImage v) then vs_inputImage v else None)
       = Some (effs, Inl (Error m))"
  shows "\<exists>v' effs' msg. handleGenerate env fuel cb v w = Some (v', w, effs')
           \<and> vs_error v' = Some msg \<and> msg \<noteq> [] \<and> \<not> vs_isGenerating v'"
proof (cases "checkApiKey env")
  case (Pair effs1 r)
  show ?thesis
  proof (cases r)
    case (Inl e1)
    with Pair assms(2) have "e1 \<noteq> Nullish" by auto
    from message_or_shown [OF this, of "''An unexpected error occurred.''"]
    obtain msg where "message_or e1 ''An unexpected error occurred.'' = Inr msg" "msg \<noteq> []"
      by auto
    with Pair Inl assms(1) show ?thesis
      by (auto simp: handleGenerate_def veoGenerateBody_def Let_def)
  next
    case (Inr u)
    have "message_or (Error m) ''An unexpected error occurred.''
            = Inr (if truthy_opt m then render_opt m else ''An unexpected error occurred.'')"
      by simp
    moreover have "(if truthy_opt m then render_opt m else ''An unexpected error occurred.'') \<noteq> []"
      by (auto simp: truthy_opt_def truthy_def render_opt_def split: option.splits)
    ultimately show ?thesis using Pair Inr assms(1,3)
      by (auto simp: handleGenerate_def veoGenerateBody_def Let_def simp del: message_or.simps)
  qed
qed

lemma veo_request_failures_rethrown:
  "(generateVideos env (veoParams p a r i) = Inl e
      \<longrightarrow> generateVeoVideo env fuel p a r i
          = Some ([Call (GenerateVideos (veoParams p a r i)),
                   ConsoleError ''Veo generation failed:'' (Some e)], Inl e))
   \<and> (generateVideos env (veoParams p a r i) = Inr operation0
        \<and> pollUntilDone env fuel 0 operation0 = Some (effs, Inl e)
      \<longrightarrow> generateVeoVideo env fuel p a r i
          = Some (Call (GenerateVideos (veoParams p a r i)) # effs
                  @ [ConsoleError ''Veo generation failed:'' (Some e)], Inl e))
   \<and> (generateVideos env (veoParams p a r i) = Inr operation0
        \<and> pollUntilDone env fuel 0 operation0 = Some (effs, Inr operation)
        \<and> videoUriOf operation = Some uri \<and> uri \<noteq> []
        \<and> fetch env (uri @ ''&key='' @ render_opt (api_key env)) = Inl e
      \<longrightarrow> generateVeoVideo env fuel p a r i
          = Some (Call (GenerateVideos (veoParams p a r i)) # effs
                  @ [Call (Fetch (uri @ ''&key='' @ render_opt (api_key env))),
                     ConsoleError ''Veo generation failed:'' (Some e)], Inl e))"
  by (simp add: generateVeoVideo_def retrieveVideo_def catch_rethrow_def Let_def
        truthy_opt_def truthy_def render_opt_def)

lemma chat_failure_shown:
  assumes "truthy (trim (input s)) \<or> truthy_opt (contextImage s)" "chatSession s = Some chat"
    "snd (sendMessageToChat chat
            (if truthy (input s) then input s else ''Analyze this image'')
            (if truthy_opt (contextImage s) then [render_opt (contextImage s)] else [])) = Inl e"
  shows "\<exists>userMsg. messages (fst (handleSend now s))
           = messages s @ [userMsg,
               \<lparr> cm_id = show_int (now 2), cm_role = Model,
                 cm_text = ''Sorry, I encountered an error processing your request.'',
                 cm_timestamp = now 3, cm_images = None \<rparr>]
           \<and> cm_role userMsg = User \<and> cm_text userMsg = input s"
proof (cases "sendMessageToChat chat
            (if truthy (input s) then input s else ''Analyze this image'')
            (if truthy_opt (contextImage s) then [render_opt (contextImage s)] else [])")
  case (Pair effs r)
  with assms(3) have "r = Inl e" by simp
  with Pair assms(1,2) show ?thesis
    by (auto simp: handleSend_def Let_def split: if_splits)
qed

lemma speech_failure_logged:
  "playingMessageId c \<noteq> Some (cm_id msg)
   \<Longrightarrow> generateContent env ''gemini-2.5-flash-preview-tts'' [TextPart (cm_text msg)]
         (SpeechConfig ''Kore'') = Inl e
   \<Longrightarrow> handleSpeak env msg c
        = (c \<lparr> playingMessageId := None \<rparr>,
           [Call (GenerateContent ''gemini-2.5-flash-preview-tts'' [TextPart (cm_text msg)]
                    (SpeechConfig ''Kore'')),
            ConsoleError ''TTS failed'' (Some e)])"
  by (simp add: handleSpeak_def generateSpeech_def Let_def)

lemma trim_example: "trim ''What is this?'' = ''What is this?''"
  by (simp add: trim_def trimStart.simps [of "''What is this?''"]
        trimEnd.simps [of "''What is this?''"] leadingWhiteSpace_def trailingWhiteSpace_def
        whiteSpaceEncodings_def startsWith_def)

lemma trim_no_break_space: "trim [CHR 0xC2, CHR 0xA0] = []"
  by (simp add: trim_def trimStart.simps [of "[CHR 0xC2, CHR 0xA0]"] trimStart.simps [of "[]"]
        trimEnd.simps [of "[]"] leadingWhiteSpace_def trailingWhiteSpace_def
        whiteSpaceEncodings_def startsWith_def)

text \<open>
  C2 (amended).  For every image-generation, image-editing or video-generation request
  that throws a value other than \<open>null\<close> or \<open>undefined\<close> (an error whose message,
  when it has one, is a string), the handler of the studio
  ends with a non-empty error banner, the busy flag cleared and the parent's state
  untouched (the key check, where one is made, not throwing \<open>null\<close> or \<open>undefined\<close>
  either); every request of a video-generation run (the start of the job, a status
  query, the download) that throws makes \<open>generateVeoVideo\<close> log and rethrow.  For every
  chat request that throws, the apology message of the model is appended after the
  user's message.  For every speech-synthesis request that throws, the failure is
  logged to the console and nothing else happens: \<open>handleSpeak\<close> ends with the playing
  indicator cleared and no other change of state or effect.
\<close>

theorem request_failures_are_shown:
  "(truthy (is_prompt s) \<and> is_activeTab s = TabGenerate
      \<and> snd (checkApiKey env) \<noteq> Inl Nullish
      \<and> generateContent env ''gemini-3-pro-image-preview'' [TextPart (is_prompt s)]
           (ImageGenConfig (ic_aspectRatio (is_config s)) (ic_size (is_config s)))
         = Inl (Error m)
    \<longrightarrow> (\<exists>msg. is_error (fst (handleAction env onImage s w)) = Some msg \<and> msg \<noteq> []
           \<and> \<not> is_isProcessing (fst (handleAction env onImage s w))
           \<and> fst (snd (handleAction env onImage s w)) = w))
   \<and> (truthy (is_prompt s) \<and> is_activeTab s = TabEdit \<and> is_selectedImageForEdit s = Some img
      \<and> generateContent env ''gemini-2.5-flash-image''
           [InlineDataPart ''image/png'' (nth_opt (split_js CHR '','' img) 1),
            TextPart (is_prompt s)] NoConfig = Inl (Error m)
    \<longrightarrow> (\<exists>msg. is_error (fst (handleAction env onImage s w)) = Some msg \<and> msg \<noteq> []
           \<and> \<not> is_isProcessing (fst (handleAction env onImage s w))
           \<and> fst (snd (handleAction env onImage s w)) = w))
   \<and> ((truthy (vs_prompt v) \<or> truthy_opt (vs_inputImage v))
      \<and> snd (checkApiKey env) \<noteq> Inl Nullish
      \<and> generateVeoVideo env fuel (vs_prompt v) (vc_aspectRatio (vs_config v))
           (vc_resolution (vs_config v))
           (if truthy_opt (vs_inputImage v) then vs_inputImage v else None)
         = Some (effs, Inl (Error m))
    \<longrightarrow> (\<exists>v' effs' msg. handleGenerate env fuel onVideo v w' = Some (v', w', effs')
           \<and> vs_error v' = Some msg \<and> msg \<noteq> [] \<and> \<not> vs_isGenerating v'))
   \<and> (generateVideos env (veoParams p a r i) = Inl e
      \<longrightarrow> generateVeoVideo env fuel p a r i
          = Some ([Call (GenerateVideos (veoParams p a r i)),
                   ConsoleError ''Veo generation failed:'' (Some e)], Inl e))
   \<and> (generateVideos env (veoParams p a r i) = Inr operation0
        \<and> pollUntilDone env fuel 0 operation0 = Some (effs0, Inl e)
      \<longrightarrow> generateVeoVideo env fuel p a r i
          = Some (Call (GenerateVideos (veoParams p a r i)) # effs0
                  @ [ConsoleError ''Veo generation failed:'' (Some e)], Inl e))
   \<and> (generateVideos env (veoParams p a r i) = Inr operation0
        \<and> pollUntilDone env fuel 0 operation0 = Some (effs0, Inr operation)
        \<and> videoUriOf operation = Some uri \<and> uri \<noteq> []
        \<and> fetch env (uri @ ''&key='' @ render_opt (api_key env)) = Inl e
      \<longrightarrow> generateVeoVideo env fuel p a r i
          = Some (Call (GenerateVideos (veoParams p a r i)) # effs0
                  @ [Call (Fetch (uri @ ''&key='' @ render_opt (api_key env))),
                     ConsoleError ''Veo generation failed:'' (Some e)], Inl e))
   \<and> ((truthy (trim (input c)) \<or> truthy_opt (contextImage c)) \<and> chatSession c = Some chat
      \<and> snd (sendMessageToChat chat
                (if truthy (input c) then input c else ''Analyze this image'')
                (if truthy_opt (contextImage c) then [render_opt (contextImage c)] else []))
          = Inl e
    \<longrightarrow> (\<exists>userMsg. messages (fst (handleSend now c))
           = messages c @ [userMsg,
               \<lparr> cm_id = show_int (now 2), cm_role = Model,
                 cm_text = ''Sorry, I encountered an error processing your request.'',
                 cm_timestamp = now 3, cm_images = None \<rparr>]
           \<and> cm_role userMsg = User \<and> cm_text userMsg = input c))
   \<and> (playingMessageId c \<noteq> Some (cm_id spoken)
      \<and> generateContent env ''gemini-2.5-flash-preview-tts'' [TextPart (cm_text spoken)]
           (SpeechConfig ''Kore'') = Inl e
    \<longrightarrow> handleSpeak env spoken c
        = (c \<lparr> playingMessageId := None \<rparr>,
           [Call (GenerateContent ''gemini-2.5-flash-preview-tts'' [TextPart (cm_text spoken)]
                    (SpeechConfig ''Kore'')),
            ConsoleError ''TTS failed'' (Some e)]))"
proof (intro conjI impI)
  assume "truthy (is_prompt s) \<and> is_activeTab s = TabGenerate
      \<and> snd (checkApiKey env) \<noteq> Inl Nullish
      \<and> generateContent env ''gemini-3-pro-image-preview'' [TextPart (is_prompt s)]
           (ImageGenConfig (ic_aspectRatio (is_config s)) (ic_size (is_config s)))
         = Inl (Error m)"
  then show "\<exists>msg. is_error (fst (handleAction env onImage s w)) = Some msg \<and> msg \<noteq> []
           \<and> \<not> is_isProcessing (fst (handleAction env onImage s w))
           \<and> fst (snd (handleAction env onImage s w)) = w"
    using image_generation_failure_shown [of s env m onImage w] by blast
next
  assume "truthy (is_prompt s) \<and> is_activeTab s = TabEdit \<and> is_selectedImageForEdit s = Some img
      \<and> generateContent env ''gemini-2.5-flash-image''
           [InlineDataPart ''image/png'' (nth_opt (split_js CHR '','' img) 1),
            TextPart (is_prompt s)] NoConfig = Inl (Error m)"
  then show "\<exists>msg. is_error (fst (handleAction env onImage s w)) = Some msg \<and> msg \<noteq> []
           \<and> \<not> is_isProcessing (fst (handleAction env onImage s w))
           \<and> fst (snd (handleAction env onImage s w)) = w"
    using image_editing_failure_shown [of s img env m onImage w] by blast
next
  assume "(truthy (vs_prompt v) \<or> truthy_opt (vs_inputImage v))
      \<and> snd (checkApiKey env) \<noteq> Inl Nullish
      \<and> generateVeoVideo env fuel (vs_prompt v) (vc_aspectRatio (vs_config v))
           (vc_resolution (vs_config v))
           (if truthy_opt (vs_inputImage v) then vs_inputImage v else None)
         = Some (effs, Inl (Error m))"
  then show "\<exists>v' effs' msg. handleGenerate env fuel onVideo v w' = Some (v', w', effs')
           \<and> vs_error v' = Some msg \<and> msg \<noteq> [] \<and> \<not> vs_isGenerating v'"
    using video_generation_failure_shown [of v env fuel effs m onVideo w'] by blast
next
  assume "generateVideos env (veoParams p a r i) = Inl e"
  then show "generateVeoVideo env fuel p a r i
          = Some ([Call (GenerateVideos (veoParams p a r i)),
                   ConsoleError ''Veo generation failed:'' (Some e)], Inl e)"
    using veo_request_failures_rethrown [of env p a r i e fuel] by blast
next
  assume "generateVideos env (veoParams p a r i) = Inr operation0
        \<and> pollUntilDone env fuel 0 operation0 = Some (effs0, Inl e)"
  then show "generateVeoVideo env fuel p a r i
          = Some (Call (GenerateVideos (veoParams p a r i)) # effs0
                  @ [ConsoleError ''Veo generation failed:'' (Some e)], Inl e)"
    using veo_request_failures_rethrown [of env p a r i e fuel operation0 effs0] by blast
next
  assume "generateVideos env (veoParams p a r i) = Inr operation0
        \<and> pollUntilDone env fuel 0 operation0 = Some (effs0, Inr operation)
        \<and> videoUriOf operation = Some uri \<and> uri \<noteq> []
        \<and> fetch env (uri @ ''&key='' @ render_opt (api_key env)) = Inl e"
  then show "generateVeoVideo env fuel p a r i
          = Some (Call (GenerateVideos (veoParams p a r i)) # effs0
                  @ [Call (Fetch (uri @ ''&key='' @ render_opt (api_key env))),
                     ConsoleError ''Veo generation failed:'' (Some e)], Inl e)"
    using veo_request_failures_rethrown [of env p a r i e fuel operation0 effs0 operation uri] by blast
next
  assume "(truthy (trim (input c)) \<or> truthy_opt (contextImage c)) \<and> chatSession c = Some chat
      \<and> snd (sendMessageToChat chat
                (if truthy (input c) then input c else ''Analyze this image'')
                (if truthy_opt (contextImage c) then [render_opt (contextImage c)] else []))
          = Inl e"
  then show "\<exists>userMsg. messages (fst (handleSend now c))
           = messages c @ [userMsg,
               \<lparr> cm_id = show_int (now 2), cm_role = Model,
                 cm_text = ''Sorry, I encountered an error processing your request.'',
                 cm_timestamp = now 3, cm_images = None \<rparr>]
           \<and> cm_role userMsg = User \<and> cm_text userMsg = input c"
    using chat_failure_shown [of c chat e now] by blast
next
  assume "playingMessageId c \<noteq> Some (cm_id spoken)
      \<and> generateContent env ''gemini-2.5-flash-preview-tts'' [TextPart (cm_text spoken)]
           (SpeechConfig ''Kore'') = Inl e"
  then show "handleSpeak env spoken c
        = (c \<lparr> playingMessageId := None \<rparr>,
           [Call (GenerateContent ''gemini-2.5-flash-preview-tts'' [TextPart (cm_text spoken)]
                    (SpeechConfig ''Kore'')),
            ConsoleError ''TTS failed'' (Some e)])"
    using speech_failure_logged [of c spoken env e] by blast
qed

theorem request_failures_are_shown_witness:
  "is_error (fst (handleAction exampleEnv (onImageGenerated examplePlatform)
                    exampleImageStudio initialApp)) = Some ''service unavailable''
   \<and> is_error (fst (handleAction exampleEnv (onImageGenerated examplePlatform)
                    exampleEditStudio initialApp)) = Some ''service unavailable''
   \<and> map_option (\<lambda>r. vs_error (fst r))
        (handleGenerate (exampleEnv \<lparr> generateVideos := (\<lambda>params. Inl (Error None)) \<rparr>) 5
           (onVideoGenerated examplePlatform) exampleVeoStudio initialApp)
       = Some (Some ''An unexpected error occurred.'')
   \<and> generateVeoVideo (exampleEnv \<lparr> getVideosOperation := (\<lambda>k operation. Inl (Error (Some ''poll failed''))) \<rparr>)
        5 ''a cat'' VA_16_9 R720p None
       = Some (Call (GenerateVideos (veoParams ''a cat'' VA_16_9 R720p None))
               # [Sleep 5000, Call (GetVideosOperation pendingOperation)]
               @ [ConsoleError ''Veo generation failed:'' (Some (Error (Some ''poll failed'')))],
               Inl (Error (Some ''poll failed'')))
   \<and> generateVeoVideo (exampleEnv \<lparr> generateVideos := (\<lambda>params. Inr doneOperation),
                                    fetch := (\<lambda>u. Inl (Error (Some ''network''))) \<rparr>)
        5 ''a cat'' VA_16_9 R720p None
       = Some (Call (GenerateVideos (veoParams ''a cat'' VA_16_9 R720p None)) # []
               @ [Call (Fetch (''https://v.example/1?alt=media'' @ ''&key='' @ ''KEY'')),
                  ConsoleError ''Veo generation failed:'' (Some (Error (Some ''network'')))],
               Inl (Error (Some ''network'')))
   \<and> map cm_text (messages (fst (handleSend exampleClock exampleAssistant)))
       = [''Hello!'', ''What is this?'', ''Sorry, I encountered an error processing your request.'']
   \<and> handleSpeak exampleEnv exampleMessage (exampleAssistant \<lparr> playingMessageId := Some ''m2'' \<rparr>)
       = (exampleAssistant,
          [Call (GenerateContent ''gemini-2.5-flash-preview-tts'' [TextPart ''Hello!'']
                   (SpeechConfig ''Kore'')),
           ConsoleError ''TTS failed'' (Some (Error (Some ''service unavailable'')))])"
proof -
  let ?m = "Some ''service unavailable''"
  have k: "snd (checkApiKey exampleEnv) \<noteq> Inl Nullish"
    by (simp add: checkApiKey_def exampleEnv_def)
  have h1: "truthy (is_prompt exampleImageStudio) \<and> is_activeTab exampleImageStudio = TabGenerate
      \<and> snd (checkApiKey exampleEnv) \<noteq> Inl Nullish
      \<and> generateContent exampleEnv ''gemini-3-pro-image-preview''
           [TextPart (is_prompt exampleImageStudio)]
           (ImageGenConfig (ic_aspectRatio (is_config exampleImageStudio))
              (ic_size (is_config exampleImageStudio))) = Inl (Error ?m)"
    using k by (simp add: exampleImageStudio_def initialImageStudio_def truthy_def exampleEnv_def)
  have c1: "is_error (fst (handleAction exampleEnv (onImageGenerated examplePlatform)
                    exampleImageStudio initialApp)) = Some ''service unavailable''"
    using request_failures_are_shown
      [where s = exampleImageStudio and env = exampleEnv and m = ?m
         and onImage = "onImageGenerated examplePlatform" and w = initialApp,
       THEN conjunct1, THEN mp, OF h1]
    by (simp add: handleAction_def imageActionBody_def checkApiKey_def generateImage_def
          catch_rethrow_def truthy_opt_def truthy_def render_opt_def Let_def
          exampleImageStudio_def initialImageStudio_def exampleEnv_def)
  have h2: "truthy (is_prompt exampleEditStudio) \<and> is_activeTab exampleEditStudio = TabEdit
      \<and> is_selectedImageForEdit exampleEditStudio = Some ''data:image/png;base64,AAAA''
      \<and> generateContent exampleEnv ''gemini-2.5-flash-image''
           [InlineDataPart ''image/png'' (nth_opt (split_js CHR '','' ''data:image/png;base64,AAAA'') 1),
            TextPart (is_prompt exampleEditStudio)] NoConfig = Inl (Error ?m)"
    by (simp add: exampleEditStudio_def initialImageStudio_def truthy_def exampleEnv_def)
  have c2: "is_error (fst (handleAction exampleEnv (onImageGenerated examplePlatform)
                    exampleEditStudio initialApp)) = Some ''service unavailable''"
    using request_failures_are_shown
      [where s = exampleEditStudio and env = exampleEnv and m = ?m
         and img = "''data:image/png;base64,AAAA''"
         and onImage = "onImageGenerated examplePlatform" and w = initialApp,
       THEN conjunct2, THEN conjunct1, THEN mp, OF h2]
    by (simp add: handleAction_def imageActionBody_def editImage_def
          catch_rethrow_def truthy_opt_def truthy_def Let_def render_opt_def
          exampleEditStudio_def initialImageStudio_def exampleEnv_def)
  let ?env3 = "exampleEnv \<lparr> generateVideos := (\<lambda>params. Inl (Error None)) \<rparr>"
  have h3: "generateVideos ?env3 (veoParams ''a cat'' VA_16_9 R720p None) = Inl (Error None)"
    by simp
  have g3: "generateVeoVideo ?env3 5 ''a cat'' VA_16_9 R720p None
          = Some ([Call (GenerateVideos (veoParams ''a cat'' VA_16_9 R720p None)),
                   ConsoleError ''Veo generation failed:'' (Some (Error None))], Inl (Error None))"
    using request_failures_are_shown
      [where env = ?env3 and e = "Error None" and p = "''a cat''" and a = VA_16_9 and r = R720p
         and i = None and fuel = 5, THEN conjunct2, THEN conjunct2, THEN conjunct2,
         THEN conjunct1, THEN mp, OF h3] .
  have s3: "vs_prompt exampleVeoStudio = ''a cat'' \<and> vs_inputImage exampleVeoStudio = None
      \<and> vc_aspectRatio (vs_config exampleVeoStudio) = VA_16_9
      \<and> vc_resolution (vs_config exampleVeoStudio) = R720p"
    by (simp add: exampleVeoStudio_def initialVeoStudio_def)
  have k3: "checkApiKey ?env3 = ([], Inr ())"
    by (simp add: checkApiKey_def exampleEnv_def)
  have h3': "(truthy (vs_prompt exampleVeoStudio) \<or> truthy_opt (vs_inputImage exampleVeoStudio))
      \<and> snd (checkApiKey ?env3) \<noteq> Inl Nullish
      \<and> generateVeoVideo ?env3 5 (vs_prompt exampleVeoStudio)
           (vc_aspectRatio (vs_config exampleVeoStudio)) (vc_resolution (vs_config exampleVeoStudio))
           (if truthy_opt (vs_inputImage exampleVeoStudio) then vs_inputImage exampleVeoStudio
            else None)
          = Some ([Call (GenerateVideos (veoParams ''a cat'' VA_16_9 R720p None)),
                   ConsoleError ''Veo generation failed:'' (Some (Error None))], Inl (Error None))"
    using g3 by (simp add: s3 k3 truthy_def truthy_opt_def)
  have shown3: "\<exists>v' effs' msg.
           handleGenerate ?env3 5 (onVideoGenerated examplePlatform) exampleVeoStudio initialApp
             = Some (v', initialApp, effs')
           \<and> vs_error v' = Some msg \<and> msg \<noteq> [] \<and> \<not> vs_isGenerating v'"
    by (rule request_failures_are_shown
      [where v = exampleVeoStudio and env = ?env3 and m = None and fuel = 5
         and onVideo = "onVideoGenerated examplePlatform" and w' = initialApp,
         THEN conjunct2, THEN conjunct2, THEN conjunct1, THEN mp, OF h3'])
  have c3: "map_option (\<lambda>r. vs_error (fst r))
        (handleGenerate ?env3 5 (onVideoGenerated examplePlatform) exampleVeoStudio initialApp)
       = Some (Some ''An unexpected error occurred.'')"
    using shown3
    by (simp add: handleGenerate_def veoGenerateBody_def s3 g3 k3 truthy_def truthy_opt_def Let_def)
  let ?env4 = "exampleEnv \<lparr> getVideosOperation := (\<lambda>k operation. Inl (Error (Some ''poll failed''))) \<rparr>"
  have h4: "generateVideos ?env4 (veoParams ''a cat'' VA_16_9 R720p None) = Inr pendingOperation
        \<and> pollUntilDone ?env4 5 0 pendingOperation
            = Some ([Sleep 5000, Call (GetVideosOperation pendingOperation)],
                    Inl (Error (Some ''poll failed'')))"
    by (simp add: eval_nat_numeral exampleEnv_def isDone_def pendingOperation_def)
  have c4: "generateVeoVideo ?env4 5 ''a cat'' VA_16_9 R720p None
       = Some (Call (GenerateVideos (veoParams ''a cat'' VA_16_9 R720p None))
               # [Sleep 5000, Call (GetVideosOperation pendingOperation)]
               @ [ConsoleError ''Veo generation failed:'' (Some (Error (Some ''poll failed'')))],
               Inl (Error (Some ''poll failed'')))"
    using request_failures_are_shown
      [where env = ?env4 and e = "Error (Some ''poll failed'')" and p = "''a cat''" and a = VA_16_9
         and r = R720p and i = None and fuel = 5 and operation0 = pendingOperation
         and effs0 = "[Sleep 5000, Call (GetVideosOperation pendingOperation)]",
         THEN conjunct2, THEN conjunct2, THEN conjunct2, THEN conjunct2, THEN conjunct1,
         THEN mp, OF h4] .
  let ?env5 = "exampleEnv \<lparr> generateVideos := (\<lambda>params. Inr doneOperation),
                            fetch := (\<lambda>u. Inl (Error (Some ''network''))) \<rparr>"
  have h5: "generateVideos ?env5 (veoParams ''a cat'' VA_16_9 R720p None) = Inr doneOperation
        \<and> pollUntilDone ?env5 5 0 doneOperation = Some ([], Inr doneOperation)
        \<and> videoUriOf doneOperation = Some ''https://v.example/1?alt=media''
        \<and> ''https://v.example/1?alt=media'' \<noteq> []
        \<and> fetch ?env5 (''https://v.example/1?alt=media'' @ ''&key='' @ render_opt (api_key ?env5))
            = Inl (Error (Some ''network''))"
    by (simp add: eval_nat_numeral isDone_def doneOperation_def example_uri [unfolded doneOperation_def])
  have k5: "render_opt (api_key ?env5) = ''KEY''"
    by (simp add: exampleEnv_def render_opt_def)
  have c5: "generateVeoVideo ?env5 5 ''a cat'' VA_16_9 R720p None
       = Some (Call (GenerateVideos (veoParams ''a cat'' VA_16_9 R720p None)) # []
               @ [Call (Fetch (''https://v.example/1?alt=media'' @ ''&key='' @ ''KEY'')),
                  ConsoleError ''Veo generation failed:'' (Some (Error (Some ''network'')))],
               Inl (Error (Some ''network'')))"
    using request_failures_are_shown
      [where env = ?env5 and e = "Error (Some ''network'')" and p = "''a cat''" and a = VA_16_9
         and r = R720p and i = None and fuel = 5 and operation0 = doneOperation
         and effs0 = "[]" and operation = doneOperation
         and uri = "''https://v.example/1?alt=media''",
         THEN conjunct2, THEN conjunct2, THEN conjunct2, THEN conjunct2, THEN conjunct2,
         THEN conjunct1, THEN mp, OF h5] k5
    by simp
  have h6: "(truthy (trim (input exampleAssistant)) \<or> truthy_opt (contextImage exampleAssistant))
      \<and> chatSession exampleAssistant = Some (\<lambda>c. Inl (Error ?m))
      \<and> snd (sendMessageToChat (\<lambda>c. Inl (Error ?m))
                (if truthy (input exampleAssistant) then input exampleAssistant
                 else ''Analyze this image'')
                (if truthy_opt (contextImage exampleAssistant)
                 then [render_opt (contextImage exampleAssistant)] else []))
          = Inl (Error ?m)"
    by (simp add: exampleAssistant_def trim_example truthy_def truthy_opt_def
          sendMessageToChat_def)
  have c6: "map cm_text (messages (fst (handleSend exampleClock exampleAssistant)))
       = [''Hello!'', ''What is this?'', ''Sorry, I encountered an error processing your request.'']"
    using request_failures_are_shown
      [where c = exampleAssistant and chat = "\<lambda>c. Inl (Error ?m)" and e = "Error ?m"
         and now = exampleClock,
         THEN conjunct2, THEN conjunct2, THEN conjunct2, THEN conjunct2, THEN conjunct2,
         THEN conjunct2, THEN conjunct1, THEN mp, OF h6]
    by (auto simp: exampleAssistant_def exampleMessage_def)
  have h7: "playingMessageId (exampleAssistant \<lparr> playingMessageId := Some ''m2'' \<rparr>)
              \<noteq> Some (cm_id exampleMessage)
      \<and> generateContent exampleEnv ''gemini-2.5-flash-preview-tts'' [TextPart (cm_text exampleMessage)]
           (SpeechConfig ''Kore'') = Inl (Error ?m)"
    by (simp add: exampleMessage_def exampleEnv_def)
  have c7: "handleSpeak exampleEnv exampleMessage (exampleAssistant \<lparr> playingMessageId := Some ''m2'' \<rparr>)
       = (exampleAssistant,
          [Call (GenerateContent ''gemini-2.5-flash-preview-tts'' [TextPart ''Hello!'']
                   (SpeechConfig ''Kore'')),
           ConsoleError ''TTS failed'' (Some (Error (Some ''service unavailable'')))])"
    using request_failures_are_shown
      [where c = "exampleAssistant \<lparr> playingMessageId := Some ''m2'' \<rparr>" and spoken = exampleMessage
         and env = exampleEnv and e = "Error ?m",
         THEN conjunct2, THEN conjunct2, THEN conjunct2, THEN conjunct2, THEN conjunct2,
         THEN conjunct2, THEN conjunct2, THEN mp, OF h7]
    by (simp add: exampleAssistant_def exampleMessage_def)
  from c1 c2 c3 c4 c5 c6 c7 show ?thesis by (intro conjI)
qed

text \<open>
  C2 as stated fails for speech synthesis: when the request throws, \<open>generateSpeech\<close>
  logs to the console and returns \<open>null\<close>, and \<open>handleSpeak\<close> ends in the state it
  started from, with no other effect than the request and the console line.
\<close>

theorem speech_failure_is_only_logged:
  "handleSpeak exampleEnv exampleMessage exampleAssistant
     = (exampleAssistant,
        [Call (GenerateContent ''gemini-2.5-flash-preview-tts'' [TextPart ''Hello!'']
                 (SpeechConfig ''Kore'')),
         ConsoleError ''TTS failed'' (Some (Error (Some ''service unavailable'')))])"
  by (simp add: handleSpeak_def generateSpeech_def exampleEnv_def exampleAssistant_def
        exampleMessage_def Let_def)


end
